theory Spec2Isabelle
  imports Complex_Main "HOL-Library.AList"
begin

section \<open>Python values and exceptions\<close>

text \<open>
  The repository is Python. Values of type \<^verbatim>\<open>Any\<close> are the datatype \<open>pyval\<close>; a dict
  literal is an association list in insertion order. A \<^verbatim>\<open>str\<close> is the list of the bytes
  of its UTF-8 encoding. A \<^verbatim>\<open>float\<close> is an IEEE 754 binary64 number: \<open>PFloat x\<close> is the
  finite double whose value is the real number \<open>x\<close>; the infinities and NaN are outside
  the model.
\<close>

datatype pyval =
    PNone
  | PStr string
  | PFloat real
  | PList "pyval list"
  | PDict "(string \<times> pyval) list"

text \<open>
  An exception object: its class, \<^verbatim>\<open>str(e)\<close>, and \<^verbatim>\<open>__context__\<close>, the exception that
  was being handled when it was raised (Python sets it on every \<^verbatim>\<open>raise\<close> inside an
  \<^verbatim>\<open>except\<close> block).
\<close>

datatype exn_class =
  Exception | ValueError | RuntimeError | TypeError | KeyError | NotImplementedError

datatype pyexn = PyExn (exn_cls: exn_class) (str: string) (exn_context: "pyexn option")

type_synonym 'a res = "pyexn + 'a"

definition bind_res :: "'a res \<Rightarrow> ('a \<Rightarrow> 'b res) \<Rightarrow> 'b res" where
  "bind_res r f = (case r of Inl e \<Rightarrow> Inl e | Inr v \<Rightarrow> f v)"

text \<open>
  \<^verbatim>\<open>try: body except Exception as e: raise Exception(f"<label>{str(e)}")\<close>, the wrapper
  around every phase of an agent.
\<close>

definition reraise :: "string \<Rightarrow> 'a res \<Rightarrow> 'a res" where
  "reraise label r =
     (case r of Inl e \<Rightarrow> Inl (PyExn Exception (label @ str e) (Some e)) | Inr v \<Rightarrow> Inr v)"

subsection \<open>Floats\<close>

text \<open>
  Arithmetic on floats rounds its exact result to the nearest double, and to the one with
  the even significand when two are equally near. A double has a significand of 53 bits:
  at a number \<open>x\<close> the doubles are the multiples of \<open>2 powi ulp_exponent x\<close>, where the
  exponent is 52 below \<open>\<lfloor>log 2 \<bar>x\<bar>\<rfloor>\<close> for a normal number and \<open>- 1074\<close> for a subnormal
  one, below \<open>2 powi - 1022\<close>.
\<close>

definition round_half_even :: "real \<Rightarrow> int" where
  "round_half_even q =
     (let f = \<lfloor>q\<rfloor>; d = q - of_int f
      in if d < 1 / 2 then f else if 1 / 2 < d then f + 1 else if even f then f else f + 1)"

definition ulp_exponent :: "real \<Rightarrow> int" where
  "ulp_exponent x = max \<lfloor>log 2 \<bar>x\<bar>\<rfloor> (- 1022) - 52"

definition round_double :: "real \<Rightarrow> real" where
  "round_double x =
     (if x = 0 then 0
      else of_int (round_half_even (x / 2 powi ulp_exponent x)) * 2 powi ulp_exponent x)"

text \<open>The finite doubles: the numbers that rounding leaves as they are, below \<open>2 ^ 1024\<close>.\<close>

definition is_double :: "real \<Rightarrow> bool" where
  "is_double x = (round_double x = x \<and> \<bar>x\<bar> < 2 ^ 1024)"

text \<open>
  The float that a decimal literal of the source denotes, such as \<^verbatim>\<open>0.8\<close>: the double
  nearest to it.
\<close>

definition float_literal :: "real \<Rightarrow> real" where
  "float_literal r = round_double r"

text \<open>\<^verbatim>\<open>x * y\<close> on two floats, where the product does not overflow.\<close>

definition float_mul :: "real \<Rightarrow> real \<Rightarrow> real" where
  "float_mul x y = round_double (x * y)"

fun is_float :: "pyval \<Rightarrow> bool" where
  "is_float (PFloat x) = True"
| "is_float _ = False"

text \<open>
  \<^verbatim>\<open>x *= f\<close> for a float \<open>f\<close>: the rounded product on a float, a TypeError on the other
  values, with the message that CPython gives. The source has the two factors 0.8 and
  0.9, both below 1, so that the product of a finite double is finite.
\<close>

definition quoted :: "string \<Rightarrow> string" where
  "quoted s = [CHR 0x27] @ s @ [CHR 0x27]"

definition unsupported_imul :: "string \<Rightarrow> pyexn" where
  "unsupported_imul ty =
     PyExn TypeError
       (''unsupported operand type(s) for *=: '' @ quoted ty @ '' and '' @ quoted ''float'') None"

definition sequence_imul :: pyexn where
  "sequence_imul =
     PyExn TypeError
       (''can'' @ [CHR 0x27] @ ''t multiply sequence by non-int of type '' @ quoted ''float'') None"

fun py_imul :: "pyval \<Rightarrow> real \<Rightarrow> pyval res" where
  "py_imul (PFloat c) f = Inr (PFloat (float_mul c f))"
| "py_imul PNone f = Inl (unsupported_imul ''NoneType'')"
| "py_imul (PDict d) f = Inl (unsupported_imul ''dict'')"
| "py_imul (PStr s) f = Inl sequence_imul"
| "py_imul (PList l) f = Inl sequence_imul"

subsection \<open>Strings\<close>

text \<open>
  The characters of a string: in UTF-8 a character is one byte that is not a continuation
  byte, followed by the continuation bytes (\<open>0x80\<close> to \<open>0xBF\<close>) that belong to it.
\<close>

definition utf8_continuation :: "char \<Rightarrow> bool" where
  "utf8_continuation c = (128 \<le> (of_char c :: nat) \<and> (of_char c :: nat) < 192)"

definition characters :: "string \<Rightarrow> string list" where
  "characters s =
     snd (foldr (\<lambda>c (pending, done).
                   if utf8_continuation c then (c # pending, done)
                   else ([], (c # pending) # done)) s ([], []))"

text \<open>\<^verbatim>\<open>string.ascii_uppercase\<close>, the letters A to Z.\<close>

definition ascii_uppercase :: string where
  "ascii_uppercase = ''ABCDEFGHIJKLMNOPQRSTUVWXYZ''"


section \<open>agents/base\_agent.py\<close>

record AgentPersonality =
  name :: string
  traits :: "(string \<times> real) list"
  expertise :: "string list"
  description :: string

text \<open>
  \<open>AgentState\<close> is a pydantic model. Assignment to a field is not validated, so every
  field holds a \<open>pyval\<close>; the declared types are those of the defaults.
\<close>

record AgentState =
  current_task :: pyval
  memory :: pyval
  confidence :: pyval
  "context" :: pyval

definition AgentState_init :: AgentState where
  "AgentState_init =
     \<lparr>current_task = PNone, memory = PDict [], confidence = PFloat 1, context = PDict []\<rparr>"

definition field_names :: "string list" where
  "field_names = [''current_task'', ''memory'', ''confidence'', ''context'']"

definition setattr_field :: "AgentState \<Rightarrow> string \<Rightarrow> pyval \<Rightarrow> AgentState" where
  "setattr_field s key v =
     (if key = ''current_task'' then s\<lparr>current_task := v\<rparr>
      else if key = ''memory'' then s\<lparr>memory := v\<rparr>
      else if key = ''confidence'' then s\<lparr>confidence := v\<rparr>
      else if key = ''context'' then s\<lparr>context := v\<rparr>
      else s)"

definition getattr_field :: "AgentState \<Rightarrow> string \<Rightarrow> pyval" where
  "getattr_field s key =
     (if key = ''current_task'' then current_task s
      else if key = ''memory'' then memory s
      else if key = ''confidence'' then confidence s
      else if key = ''context'' then context s
      else PNone)"

text \<open>
  \<^verbatim>\<open>update_state\<close>: \<^verbatim>\<open>for key, value in new_state.items(): if hasattr(self.state, key):
  setattr(self.state, key, value)\<close>. The mapping is the list of its items in order.
  \<^verbatim>\<open>hasattr\<close> holds for the four fields and for every other attribute of the state
  object; those come from pydantic's \<^verbatim>\<open>BaseModel\<close> (its methods, such as the \<^verbatim>\<open>dict\<close>
  that \<^verbatim>\<open>reflect\<close> calls) and are the parameter \<open>attrs\<close>. \<^verbatim>\<open>setattr\<close> on such a name
  is refused by pydantic with a ValueError, which leaves the loop; what was assigned
  before stays assigned.
\<close>

fun update_state :: "string list \<Rightarrow> AgentState \<Rightarrow> (string \<times> pyval) list \<Rightarrow> pyexn option \<times> AgentState" where
  "update_state attrs s [] = (None, s)"
| "update_state attrs s ((key, v) # rest) =
     (if key \<in> set field_names then update_state attrs (setattr_field s key v) rest
      else if key \<in> set attrs then
        (Some (PyExn ValueError (''\"AgentState\" object has no field \"'' @ key @ ''\"'') None), s)
      else update_state attrs s rest)"

datatype agent_kind =
  Analyst | Strategist | CreativeThinker | Challenger | Implementer | Researcher | Synthesizer

type_synonym knowledge_base = "string \<Rightarrow> pyval res"

text \<open>
  An agent object: the attributes of \<^verbatim>\<open>BaseAgent\<close>, the subclass it is an instance of,
  and the subclass attributes that the modelled methods read or write.
\<close>

record BaseAgent =
  kind :: agent_kind
  personality :: AgentPersonality
  state :: AgentState
  knowledge_base :: "knowledge_base option"
  analysis_history :: "pyval list"
  current_analysis :: pyval
  strategic_plans :: "(string \<times> pyval) list"

definition access_knowledge_base :: "BaseAgent \<Rightarrow> string \<Rightarrow> pyval res" where
  "access_knowledge_base self query =
     (case knowledge_base self of
        None \<Rightarrow> Inl (PyExn ValueError ''Knowledge base not initialized'' None)
      | Some kb \<Rightarrow> kb query)"


text \<open>
  \<^verbatim>\<open>reflect\<close>: the snapshot \<^verbatim>\<open>{"state": self.state.dict(), "confidence": ...,
  "current_focus": ...}\<close>.
\<close>

definition AgentState_dict :: "AgentState \<Rightarrow> pyval" where
  "AgentState_dict s =
     PDict [(''current_task'', current_task s), (''memory'', memory s),
            (''confidence'', confidence s), (''context'', context s)]"

definition reflect :: "BaseAgent \<Rightarrow> pyval" where
  "reflect self =
     PDict [(''state'', AgentState_dict (state self)),
            (''confidence'', confidence (state self)),
            (''current_focus'', current_task (state self))]"

definition personality_val :: "AgentPersonality \<Rightarrow> pyval" where
  "personality_val p =
     PDict [(''name'', PStr (name p)),
            (''traits'', PDict (map (\<lambda>(k, w). (k, PFloat (float_literal w))) (traits p))),
            (''expertise'', PList (map PStr (expertise p))),
            (''description'', PStr (description p))]"


section \<open>The environment of a call\<close>

text \<open>
  What a call of \<^verbatim>\<open>process\<close> or \<^verbatim>\<open>collaborate\<close> takes from outside the code modelled
  here:
  \<^item> \<open>method\<close>: the methods of the agent classes that the model does not define itself,
    as a function of \<^verbatim>\<open>self\<close>, the method's name and its arguments. They are the helper
    methods that the source marks "implement based on specific needs", and the phases
    built from such helpers that are not written out below. They return a value or
    raise; none of them assigns to \<^verbatim>\<open>self.state\<close> in the source, and here none can;
  \<^item> \<open>now\<close>: \<^verbatim>\<open>datetime.now().isoformat()\<close>;
  \<^item> \<open>choice\<close>: \<^verbatim>\<open>random.choice\<close>;
  \<^item> \<open>state_attrs\<close>: the non-field attributes of the \<open>AgentState\<close> object.
\<close>

record env =
  "method" :: "BaseAgent \<Rightarrow> string \<Rightarrow> pyval list \<Rightarrow> pyval res"
  now :: string
  choice :: "string list \<Rightarrow> string"
  state_attrs :: "string list"

text \<open>\<^verbatim>\<open>xs.extend(v)\<close>: the elements of a list, the keys of a dict, the characters of a
  string; a TypeError on a value that is not iterable.\<close>

fun py_extend :: "pyval list \<Rightarrow> pyval \<Rightarrow> pyval list res" where
  "py_extend xs (PList l) = Inr (xs @ l)"
| "py_extend xs (PDict d) = Inr (xs @ map (\<lambda>kv. PStr (fst kv)) d)"
| "py_extend xs (PStr s) = Inr (xs @ map PStr (characters s))"
| "py_extend xs PNone = Inl (PyExn TypeError ''object is not iterable'' None)"
| "py_extend xs (PFloat f) = Inl (PyExn TypeError ''object is not iterable'' None)"

text \<open>\<^verbatim>\<open>str(n)\<close> for a natural number.\<close>

definition digit_char :: "nat \<Rightarrow> char" where
  "digit_char d = ''0123456789'' ! d"

fun str_nat :: "nat \<Rightarrow> string" where
  "str_nat n = (if n < 10 then [digit_char n] else str_nat (n div 10) @ [digit_char (n mod 10)])"


section \<open>The agent classes\<close>

text \<open>The personality that each constructor builds.\<close>

definition personality_of :: "agent_kind \<Rightarrow> AgentPersonality" where
  "personality_of k = (case k of
     Analyst \<Rightarrow>
       \<lparr>name = ''Analyst'',
        traits = [(''analytical'', 0.95), (''detail_oriented'', 0.9), (''systematic'', 0.85),
                  (''objective'', 0.9), (''methodical'', 0.88)],
        expertise = [''data analysis'', ''pattern recognition'', ''statistical inference'',
                     ''trend identification'', ''quantitative methods''],
        description = ''Data-driven analyst focused on pattern recognition and detailed analysis''\<rparr>
   | Strategist \<Rightarrow>
       \<lparr>name = ''Strategist'',
        traits = [(''analytical'', 0.8), (''strategic'', 0.9), (''creative'', 0.6),
                  (''leadership'', 0.85), (''risk_aware'', 0.75)],
        expertise = [''strategic planning'', ''goal setting'', ''risk assessment'',
                     ''trend analysis'', ''decision making''],
        description = ''Strategic thinker focused on long-term planning and direction''\<rparr>
   | CreativeThinker \<Rightarrow>
       \<lparr>name = ''Creative Thinker'',
        traits = [(''creative'', 0.95), (''intuitive'', 0.85), (''open_minded'', 0.9),
                  (''experimental'', 0.88), (''adaptable'', 0.87), (''divergent_thinking'', 0.92)],
        expertise = [''brainstorming'', ''lateral thinking'', ''innovation'',
                     ''conceptual blending'', ''design thinking'', ''creative problem solving''],
        description = ''Innovative thinker focused on generating novel ideas and creative solutions''\<rparr>
   | Challenger \<Rightarrow>
       \<lparr>name = ''Challenger'',
        traits = [(''critical'', 0.95), (''analytical'', 0.9), (''objective'', 0.88),
                  (''skeptical'', 0.85), (''constructive'', 0.8), (''thorough'', 0.87)],
        expertise = [''critical analysis'', ''assumption testing'', ''risk assessment'',
                     ''logical evaluation'', ''argument analysis'', ''problem identification''],
        description = ''Critical evaluator focused on identifying and addressing potential flaws''\<rparr>
   | Implementer \<Rightarrow>
       \<lparr>name = ''Implementer'',
        traits = [(''practical'', 0.95), (''detail_oriented'', 0.9), (''systematic'', 0.85),
                  (''efficient'', 0.88), (''organized'', 0.92), (''risk_aware'', 0.85)],
        expertise = [''execution planning'', ''resource allocation'', ''task management'',
                     ''risk mitigation'', ''process optimization'', ''project management''],
        description = ''Practical implementer focused on execution and resource management''\<rparr>
   | Researcher \<Rightarrow>
       \<lparr>name = ''Researcher'',
        traits = [(''analytical'', 0.9), (''thorough'', 0.95), (''skeptical'', 0.85),
                  (''curious'', 0.92), (''methodical'', 0.88), (''detail_oriented'', 0.9)],
        expertise = [''research methodology'', ''information synthesis'', ''source validation'',
                     ''data collection'', ''literature review'', ''critical analysis''],
        description = ''Deep knowledge explorer focused on comprehensive research and validation''\<rparr>
   | Synthesizer \<Rightarrow>
       \<lparr>name = ''Synthesizer'',
        traits = [(''analytical'', 0.8), (''integrative'', 0.95), (''systematic'', 0.85),
                  (''creative'', 0.75), (''holistic'', 0.9), (''pattern_recognition'', 0.88)],
        expertise = [''concept integration'', ''pattern synthesis'', ''knowledge mapping'',
                     ''systems thinking'', ''interdisciplinary connection'', ''meta-analysis''],
        description = ''Integration specialist focused on connecting concepts and finding patterns''\<rparr>)"

text \<open>\<^verbatim>\<open>__init__\<close> of the class \<open>k\<close>.\<close>

definition BaseAgent_init :: "agent_kind \<Rightarrow> BaseAgent" where
  "BaseAgent_init k =
     \<lparr>kind = k, personality = personality_of k, state = AgentState_init,
      knowledge_base = None, analysis_history = [], current_analysis = PNone,
      strategic_plans = []\<rparr>"

text \<open>
  The seven classes share the shape of \<^verbatim>\<open>process\<close> and \<^verbatim>\<open>collaborate\<close> and differ in
  four strings: the task label that \<^verbatim>\<open>process\<close> sets, the prefix of the message that
  \<^verbatim>\<open>process\<close> raises, the prefix of the task label that \<^verbatim>\<open>collaborate\<close> sets, and the
  prefix of the message that \<^verbatim>\<open>collaborate\<close> raises.
\<close>

fun process_task :: "agent_kind \<Rightarrow> string" where
  "process_task Analyst = ''data_analysis''"
| "process_task Strategist = ''strategic_analysis''"
| "process_task CreativeThinker = ''idea_generation''"
| "process_task Challenger = ''critical_evaluation''"
| "process_task Implementer = ''implementation_planning''"
| "process_task Researcher = ''research_investigation''"
| "process_task Synthesizer = ''concept_synthesis''"

fun process_failed :: "agent_kind \<Rightarrow> string" where
  "process_failed Analyst = ''Analysis failed: ''"
| "process_failed Strategist = ''Strategic analysis failed: ''"
| "process_failed CreativeThinker = ''Creative process failed: ''"
| "process_failed Challenger = ''Critical evaluation failed: ''"
| "process_failed Implementer = ''Implementation planning failed: ''"
| "process_failed Researcher = ''Research process failed: ''"
| "process_failed Synthesizer = ''Synthesis process failed: ''"

fun collaborate_task :: "agent_kind \<Rightarrow> string" where
  "collaborate_task Analyst = ''collaboration_with_''"
| "collaborate_task Strategist = ''collaboration_with_''"
| "collaborate_task CreativeThinker = ''creative_collaboration_with_''"
| "collaborate_task Challenger = ''collaborative_evaluation_with_''"
| "collaborate_task Implementer = ''implementation_collaboration_with_''"
| "collaborate_task Researcher = ''research_collaboration_with_''"
| "collaborate_task Synthesizer = ''collaborative_synthesis_with_''"

fun collaborate_failed :: "agent_kind \<Rightarrow> string" where
  "collaborate_failed Analyst = ''Collaborative analysis failed: ''"
| "collaborate_failed Strategist = ''Strategic collaboration failed: ''"
| "collaborate_failed CreativeThinker = ''Creative collaboration failed: ''"
| "collaborate_failed Challenger = ''Collaborative evaluation failed: ''"
| "collaborate_failed Implementer = ''Implementation collaboration failed: ''"
| "collaborate_failed Researcher = ''Research collaboration failed: ''"
| "collaborate_failed Synthesizer = ''Collaborative synthesis failed: ''"

subsection \<open>agents/analyst\_agent.py: the phases\<close>

definition analyst_prepare_data :: "env \<Rightarrow> BaseAgent \<Rightarrow> pyval \<Rightarrow> pyval res" where
  "analyst_prepare_data E self input_data =
     reraise ''Data preparation failed: ''
       (bind_res (method E self ''_validate_data'' [input_data]) (\<lambda>validated_data.
        bind_res (method E self ''_clean_data'' [validated_data]) (\<lambda>cleaned_data.
        method E self ''_structure_data'' [cleaned_data])))"

definition analyst_perform_statistical_analysis :: "env \<Rightarrow> BaseAgent \<Rightarrow> pyval \<Rightarrow> pyval res" where
  "analyst_perform_statistical_analysis E self data =
     reraise ''Statistical analysis failed: ''
       (bind_res (method E self ''_calculate_basic_statistics'' [data]) (\<lambda>basic_stats.
        bind_res (method E self ''_calculate_advanced_statistics'' [data]) (\<lambda>advanced_stats.
        bind_res (method E self ''_analyze_correlations'' [data]) (\<lambda>correlations.
        Inr (PDict [(''basic_statistics'', basic_stats),
                    (''advanced_statistics'', advanced_stats),
                    (''correlations'', correlations)])))))"

definition analyst_identify_patterns :: "env \<Rightarrow> BaseAgent \<Rightarrow> pyval \<Rightarrow> pyval res" where
  "analyst_identify_patterns E self data =
     reraise ''Pattern identification failed: ''
       (bind_res (method E self ''_find_temporal_patterns'' [data]) (\<lambda>temporal_patterns.
        bind_res (py_extend [] temporal_patterns) (\<lambda>patterns1.
        bind_res (method E self ''_find_structural_patterns'' [data]) (\<lambda>structural_patterns.
        bind_res (py_extend patterns1 structural_patterns) (\<lambda>patterns2.
        bind_res (method E self ''_find_behavioral_patterns'' [data]) (\<lambda>behavioral_patterns.
        bind_res (py_extend patterns2 behavioral_patterns) (\<lambda>patterns3.
        Inr (PList patterns3))))))))"

definition analyst_analyze_trends :: "env \<Rightarrow> BaseAgent \<Rightarrow> pyval \<Rightarrow> pyval res" where
  "analyst_analyze_trends E self data =
     reraise ''Trend analysis failed: ''
       (bind_res (method E self ''_identify_trends'' [data]) (\<lambda>trends.
        bind_res (method E self ''_classify_trends'' [trends]) (\<lambda>classified_trends.
        bind_res (method E self ''_project_trends'' [classified_trends]) (\<lambda>projections.
        Inr (PDict [(''identified_trends'', trends),
                    (''trend_classification'', classified_trends),
                    (''trend_projections'', projections)])))))"

definition analyst_generate_insights ::
  "env \<Rightarrow> BaseAgent \<Rightarrow> pyval \<Rightarrow> pyval \<Rightarrow> pyval \<Rightarrow> pyval res" where
  "analyst_generate_insights E self statistical_analysis pattern_analysis trend_analysis =
     reraise ''Insight generation failed: ''
       (bind_res (method E self ''_derive_statistical_insights'' [statistical_analysis]) (\<lambda>statistical_insights.
        bind_res (py_extend [] statistical_insights) (\<lambda>insights1.
        bind_res (method E self ''_derive_pattern_insights'' [pattern_analysis]) (\<lambda>pattern_insights.
        bind_res (py_extend insights1 pattern_insights) (\<lambda>insights2.
        bind_res (method E self ''_derive_trend_insights'' [trend_analysis]) (\<lambda>trend_insights.
        bind_res (py_extend insights2 trend_insights) (\<lambda>insights3.
        bind_res (method E self ''_derive_cross_analysis_insights''
                    [statistical_analysis, pattern_analysis, trend_analysis]) (\<lambda>cross_insights.
        bind_res (py_extend insights3 cross_insights) (\<lambda>insights4.
        Inr (PList insights4))))))))))"

text \<open>
  The \<^verbatim>\<open>try\<close> block of \<^verbatim>\<open>AnalystAgent.process\<close>: the result, and \<^verbatim>\<open>self\<close> with the
  result stored in \<^verbatim>\<open>analysis_history\<close> and \<^verbatim>\<open>current_analysis\<close>.
\<close>

definition analyst_process_try :: "env \<Rightarrow> BaseAgent \<Rightarrow> pyval \<Rightarrow> (pyval \<times> BaseAgent) res" where
  "analyst_process_try E self input_data =
     bind_res (analyst_prepare_data E self input_data) (\<lambda>prepared_data.
     bind_res (analyst_perform_statistical_analysis E self prepared_data) (\<lambda>statistical_analysis.
     bind_res (analyst_identify_patterns E self prepared_data) (\<lambda>pattern_analysis.
     bind_res (analyst_analyze_trends E self prepared_data) (\<lambda>trend_analysis.
     bind_res (analyst_generate_insights E self statistical_analysis pattern_analysis trend_analysis)
       (\<lambda>insights.
     bind_res (method E self ''_create_recommendations'' [insights]) (\<lambda>recommendations.
     bind_res (method E self ''_summarize_data'' [prepared_data]) (\<lambda>data_summary.
     bind_res (method E self ''_document_methodology'' []) (\<lambda>methodology.
       let analysis_result = PDict
             [(''timestamp'', PStr (now E)),
              (''data_summary'', data_summary),
              (''statistical_analysis'', statistical_analysis),
              (''pattern_analysis'', pattern_analysis),
              (''trend_analysis'', trend_analysis),
              (''insights'', insights),
              (''recommendations'', recommendations),
              (''confidence_score'', confidence (BaseAgent.state self)),
              (''methodology'', methodology)]
       in Inr (analysis_result,
               self\<lparr>analysis_history := analysis_history self @ [analysis_result],
                    current_analysis := analysis_result\<rparr>)))))))))"

subsection \<open>agents/strategist\_agent.py\<close>

definition strategist_analyze_context :: "env \<Rightarrow> BaseAgent \<Rightarrow> pyval \<Rightarrow> pyval res" where
  "strategist_analyze_context E self input_data =
     bind_res (access_knowledge_base self ''strategic_context'') (\<lambda>knowledge.
     bind_res (method E self ''_analyze_scope'' [input_data]) (\<lambda>problem_scope.
     bind_res (method E self ''_identify_environmental_factors'' [input_data]) (\<lambda>environmental_factors.
     bind_res (method E self ''_analyze_stakeholders'' [input_data]) (\<lambda>stakeholder_analysis.
     Inr (PDict [(''problem_scope'', problem_scope),
                 (''environmental_factors'', environmental_factors),
                 (''stakeholder_analysis'', stakeholder_analysis),
                 (''relevant_knowledge'', knowledge)])))))"

definition strategist_process_try :: "env \<Rightarrow> BaseAgent \<Rightarrow> pyval \<Rightarrow> (pyval \<times> BaseAgent) res" where
  "strategist_process_try E self input_data =
     bind_res (strategist_analyze_context E self input_data) (\<lambda>context_analysis.
     bind_res (method E self ''_generate_strategic_options'' [context_analysis]) (\<lambda>strategic_options.
     bind_res (method E self ''_assess_risks'' [strategic_options]) (\<lambda>risk_assessment.
     bind_res (method E self ''_formulate_strategic_plan'' [strategic_options, risk_assessment])
       (\<lambda>strategic_plan.
       let plan_id = str_nat (length (strategic_plans self) + 1)
       in Inr (PDict [(''plan_id'', PStr plan_id),
                      (''context_analysis'', context_analysis),
                      (''strategic_options'', strategic_options),
                      (''risk_assessment'', risk_assessment),
                      (''strategic_plan'', strategic_plan),
                      (''confidence'', confidence (BaseAgent.state self))],
               self\<lparr>strategic_plans :=
                      AList.update plan_id strategic_plan (strategic_plans self)\<rparr>)))))"

subsection \<open>process\<close>

text \<open>
  The \<^verbatim>\<open>try\<close> block of \<^verbatim>\<open>process\<close>. For the Analyst and the Strategist it is the one
  above. For the other five classes it runs phases that build objects of further classes
  (\<^verbatim>\<open>IdeaGeneration\<close>, \<^verbatim>\<open>Challenge\<close>, \<^verbatim>\<open>ImplementationPlan\<close>, \<^verbatim>\<open>ResearchQuery\<close>, a
  networkx graph); it reads the input and \<^verbatim>\<open>self\<close>, reads but never assigns
  \<^verbatim>\<open>self.state.confidence\<close>, and is taken from the environment as a whole, under the name
  \<open>process.try\<close>. What surrounds it, the label before and the handler after, is the
  same in all seven classes and is \<open>process\<close> below.
\<close>

definition process_try :: "env \<Rightarrow> BaseAgent \<Rightarrow> pyval \<Rightarrow> (pyval \<times> BaseAgent) res" where
  "process_try E self input_data =
     (if kind self = Analyst then analyst_process_try E self input_data
      else if kind self = Strategist then strategist_process_try E self input_data
      else bind_res (method E self ''process.try'' [input_data]) (\<lambda>result. Inr (result, self)))"

type_synonym agent_ref = nat
type_synonym agent_heap = "agent_ref \<Rightarrow> BaseAgent"

text \<open>
  \<^verbatim>\<open>except Exception as e: self.state.confidence *= f; raise Exception(f"<label>{str(e)}")\<close>,
  the handler of \<^verbatim>\<open>process\<close> (\<open>f\<close> the float \<^verbatim>\<open>0.8\<close>) and of \<^verbatim>\<open>collaborate\<close> (\<open>f\<close> the
  float \<^verbatim>\<open>0.9\<close>). When \<^verbatim>\<open>*=\<close> raises, its exception is what leaves the handler, with \<open>e\<close>
  as its context, and the confidence is as it was.
\<close>

definition except_handler ::
  "real \<Rightarrow> string \<Rightarrow> pyexn \<Rightarrow> agent_ref \<Rightarrow> agent_heap \<Rightarrow> pyval res \<times> agent_heap" where
  "except_handler f label e self h =
     (case py_imul (confidence (BaseAgent.state (h self))) f of
        Inl (PyExn c m _) \<Rightarrow> (Inl (PyExn c m (Some e)), h)
      | Inr c \<Rightarrow>
          (Inl (PyExn Exception (label @ str e) (Some e)),
           h(self := (h self)\<lparr>BaseAgent.state := (BaseAgent.state (h self))\<lparr>confidence := c\<rparr>\<rparr>)))"

definition process :: "env \<Rightarrow> agent_heap \<Rightarrow> agent_ref \<Rightarrow> pyval \<Rightarrow> pyval res \<times> agent_heap" where
  "process E h self input_data =
     (case update_state (state_attrs E) (BaseAgent.state (h self))
             [(''current_task'', PStr (process_task (kind (h self))))] of
        (Some e, s1) \<Rightarrow> (Inl e, h(self := (h self)\<lparr>BaseAgent.state := s1\<rparr>))
      | (None, s1) \<Rightarrow>
          (let h1 = h(self := (h self)\<lparr>BaseAgent.state := s1\<rparr>)
           in case process_try E (h1 self) input_data of
                Inr (result, self') \<Rightarrow> (Inr result, h1(self := self'))
              | Inl e \<Rightarrow>
                  except_handler (float_literal 0.8) (process_failed (kind (h1 self))) e self h1))"

subsection \<open>collaborate\<close>

definition collaboration_metadata :: "env \<Rightarrow> BaseAgent \<Rightarrow> (string \<times> pyval) list" where
  "collaboration_metadata E other_agent =
     [(''partner'', PStr (AgentPersonality.name (personality other_agent))),
      (''timestamp'', PStr (now E))]"

definition creative_approaches :: "string list" where
  "creative_approaches =
     [''analogical_thinking'', ''reverse_thinking'', ''random_association'',
      ''morphological_analysis'', ''provocative_operation'', ''biomimicry'']"

text \<open>
  The \<^verbatim>\<open>try\<close> block of \<^verbatim>\<open>collaborate\<close> after \<^verbatim>\<open>other_agent.process(context)\<close> has
  returned \<open>other\<close>, class by class.
\<close>

definition collaborate_try :: "env \<Rightarrow> BaseAgent \<Rightarrow> BaseAgent \<Rightarrow> pyval \<Rightarrow> pyval \<Rightarrow> pyval res" where
  "collaborate_try E self other_agent ctx other =
    (case kind self of
      Analyst \<Rightarrow>
        bind_res (method E self ''_validate_external_analysis'' [other]) (\<lambda>validated_analysis.
        bind_res (method E self ''_combine_analyses'' [current_analysis self, validated_analysis])
          (\<lambda>combined_analysis.
        bind_res (method E self ''_generate_collaborative_insights''
                    [combined_analysis, personality_val (personality other_agent)])
          (\<lambda>collaborative_insights.
        Inr (PDict [(''combined_analysis'', combined_analysis),
                    (''collaborative_insights'', collaborative_insights),
                    (''confidence_score'', confidence (BaseAgent.state self)),
                    (''collaboration_metadata'', PDict (collaboration_metadata E other_agent))]))))
    | Strategist \<Rightarrow>
        bind_res (method E self ''_integrate_perspectives'' [ctx, other]) (\<lambda>integrated_analysis.
        bind_res (method E self ''_update_strategic_plans'' [integrated_analysis]) (\<lambda>_.
        Inr (PDict [(''integrated_analysis'', integrated_analysis),
                    (''collaboration_partner'',
                       PStr (AgentPersonality.name (personality other_agent))),
                    (''updated_plans'', PDict (strategic_plans self))])))
    | CreativeThinker \<Rightarrow>
        bind_res (method E self ''_generate_collaborative_ideas'' [ctx, other]) (\<lambda>collaborative_ideas.
        bind_res (method E self ''_cross_pollinate_ideas''
                    [collaborative_ideas, personality_val (personality other_agent)])
          (\<lambda>cross_pollinated.
        bind_res (method E self ''_synthesize_collaborative_results'' [cross_pollinated, other])
          (\<lambda>synthesis.
        Inr (PDict [(''collaborative_ideas'', collaborative_ideas),
                    (''cross_pollinated_ideas'', cross_pollinated),
                    (''synthesis'', synthesis),
                    (''collaboration_metadata'',
                       PDict (collaboration_metadata E other_agent @
                              [(''approach'', PStr (choice E creative_approaches))]))]))))
    | Challenger \<Rightarrow>
        bind_res (method E self ''_challenge_assumptions'' [ctx, other]) (\<lambda>challenged_assumptions.
        bind_res (method E self ''_cross_evaluate_findings''
                    [challenged_assumptions, personality_val (personality other_agent)])
          (\<lambda>cross_evaluation.
        bind_res (method E self ''_generate_collaborative_critique'' [cross_evaluation, other])
          (\<lambda>collaborative_critique.
        Inr (PDict [(''challenged_assumptions'', challenged_assumptions),
                    (''cross_evaluation'', cross_evaluation),
                    (''collaborative_critique'', collaborative_critique),
                    (''collaboration_metadata'', PDict (collaboration_metadata E other_agent))]))))
    | Implementer \<Rightarrow>
        bind_res (method E self ''_integrate_implementation_perspectives'' [ctx, other])
          (\<lambda>integrated_plan.
        bind_res (method E self ''_adjust_implementation_strategy''
                    [integrated_plan, personality_val (personality other_agent)])
          (\<lambda>adjusted_strategy.
        bind_res (method E self ''_create_collaborative_execution_plan''
                    [integrated_plan, adjusted_strategy])
          (\<lambda>execution_plan.
        Inr (PDict [(''integrated_plan'', integrated_plan),
                    (''adjusted_strategy'', adjusted_strategy),
                    (''execution_plan'', execution_plan),
                    (''collaboration_metadata'', PDict (collaboration_metadata E other_agent))]))))
    | Researcher \<Rightarrow>
        bind_res (method E self ''_integrate_research_perspectives'' [ctx, other])
          (\<lambda>integrated_findings.
        bind_res (method E self ''_cross_validate_findings''
                    [integrated_findings, personality_val (personality other_agent)])
          (\<lambda>validated_findings.
        bind_res (method E self ''_create_collaborative_synthesis'' [validated_findings, other])
          (\<lambda>collaborative_synthesis.
        Inr (PDict [(''integrated_findings'', integrated_findings),
                    (''validated_findings'', validated_findings),
                    (''collaborative_synthesis'', collaborative_synthesis),
                    (''collaboration_metadata'', PDict (collaboration_metadata E other_agent))]))))
    | Synthesizer \<Rightarrow>
        bind_res (method E self ''_integrate_perspectives'' [ctx, other]) (\<lambda>integrated_concepts.
        bind_res (method E self ''_find_cross_domain_patterns''
                    [integrated_concepts, personality_val (personality other_agent)])
          (\<lambda>cross_patterns.
        bind_res (method E self ''_create_collaborative_framework''
                    [integrated_concepts, cross_patterns])
          (\<lambda>synthesis_framework.
        Inr (PDict [(''integrated_concepts'', integrated_concepts),
                    (''cross_domain_patterns'', cross_patterns),
                    (''synthesis_framework'', synthesis_framework),
                    (''collaboration_metadata'', PDict (collaboration_metadata E other_agent))])))))"

text \<open>
  \<^verbatim>\<open>collaborate\<close>. \<open>label_set\<close> is the heap after the first statement, the one that
  \<^verbatim>\<open>other_agent.process(context)\<close> runs in. \<open>self\<close> and \<open>other_agent\<close> may be the same
  reference.
\<close>

definition label_set :: "env \<Rightarrow> agent_heap \<Rightarrow> agent_ref \<Rightarrow> agent_ref \<Rightarrow> pyexn option \<times> agent_heap" where
  "label_set E h self other_agent =
     (case update_state (state_attrs E) (BaseAgent.state (h self))
             [(''current_task'',
               PStr (collaborate_task (kind (h self)) @
                     AgentPersonality.name (personality (h other_agent))))] of
        (r, s1) \<Rightarrow> (r, h(self := (h self)\<lparr>BaseAgent.state := s1\<rparr>)))"

definition collaborate ::
  "env \<Rightarrow> agent_heap \<Rightarrow> agent_ref \<Rightarrow> agent_ref \<Rightarrow> pyval \<Rightarrow> pyval res \<times> agent_heap" where
  "collaborate E h self other_agent ctx =
     (case label_set E h self other_agent of
        (Some e, h1) \<Rightarrow> (Inl e, h1)
      | (None, h1) \<Rightarrow>
          (case process E h1 other_agent ctx of
             (Inl e, h2) \<Rightarrow>
               except_handler (float_literal 0.9) (collaborate_failed (kind (h2 self))) e self h2
           | (Inr other, h2) \<Rightarrow>
               (case collaborate_try E (h2 self) (h2 other_agent) ctx other of
                  Inl e \<Rightarrow>
                    except_handler (float_literal 0.9) (collaborate_failed (kind (h2 self))) e self h2
                | Inr payload \<Rightarrow> (Inr payload, h2))))"

text \<open>\<^verbatim>\<open>d.get(key)\<close> on a value: the entry of a dict, \<open>None\<close> where there is none.\<close>

fun py_get :: "pyval \<Rightarrow> string \<Rightarrow> pyval option" where
  "py_get (PDict d) key = map_of d key"
| "py_get _ key = None"

subsection \<open>Sequences of calls\<close>

datatype call = Process agent_ref pyval | Collaborate agent_ref agent_ref pyval

fun run_call :: "env \<Rightarrow> agent_heap \<Rightarrow> call \<Rightarrow> pyval res \<times> agent_heap" where
  "run_call E h (Process a input_data) = process E h a input_data"
| "run_call E h (Collaborate a b ctx) = collaborate E h a b ctx"

text \<open>
  A list of calls, each in its own environment, made one after the other by a caller
  that catches what they raise: the outcome of each call, and the heap after the last.
\<close>

fun run_calls :: "agent_heap \<Rightarrow> (env \<times> call) list \<Rightarrow> pyval res list \<times> agent_heap" where
  "run_calls h [] = ([], h)"
| "run_calls h ((E, c) # cs) =
     (let (r, h1) = run_call E h c;
          (rs, h2) = run_calls h1 cs
      in (r # rs, h2))"


text \<open>The heap in which the task label of \<open>a\<close> is \<open>v\<close>.\<close>

definition task_set :: "agent_heap \<Rightarrow> agent_ref \<Rightarrow> pyval \<Rightarrow> agent_heap" where
  "task_set h a v =
     h(a := (h a)\<lparr>BaseAgent.state := (BaseAgent.state (h a))\<lparr>current_task := v\<rparr>\<rparr>)"

text \<open>The confidence of an agent of the heap, and the order of two confidences.\<close>

definition confidence_of :: "agent_heap \<Rightarrow> agent_ref \<Rightarrow> pyval" where
  "confidence_of h a = confidence (BaseAgent.state (h a))"

fun float_le :: "pyval \<Rightarrow> pyval \<Rightarrow> bool" where
  "float_le (PFloat x) (PFloat y) = (x \<le> y)"
| "float_le _ _ = False"

text \<open>
  \<open>decayed h h'\<close>: from \<open>h\<close> to \<open>h'\<close> every confidence is a float, has stayed at or above 0
  and has not grown.
\<close>

definition decayed :: "agent_heap \<Rightarrow> agent_heap \<Rightarrow> bool" where
  "decayed h h' =
     (\<forall>b. \<exists>c c'. confidence_of h b = PFloat c \<and> confidence_of h' b = PFloat c'
                \<and> is_double c' \<and> 0 \<le> c' \<and> c' \<le> c)"

text \<open>
  The confidence after a failing \<^verbatim>\<open>process\<close> and after a failing \<^verbatim>\<open>collaborate\<close>, from the
  confidence before.
\<close>

definition process_penalty :: "real \<Rightarrow> real" where
  "process_penalty c = float_mul c (float_literal 0.8)"

definition collaborate_penalty :: "real \<Rightarrow> real" where
  "collaborate_penalty c = float_mul c (float_literal 0.9)"

definition is_process_of :: "agent_ref \<Rightarrow> call \<Rightarrow> bool" where
  "is_process_of a c = (case c of Process b _ \<Rightarrow> b = a | Collaborate _ _ _ \<Rightarrow> False)"

definition is_collaborate_of :: "agent_ref \<Rightarrow> call \<Rightarrow> bool" where
  "is_collaborate_of a c = (case c of Process _ _ \<Rightarrow> False | Collaborate b other _ \<Rightarrow> b = a \<and> other \<noteq> a)"

subsection \<open>The helper methods as the source has them\<close>

definition implementation_needed :: pyval where
  "implementation_needed = PStr ''Implementation needed''"

definition outside_the_model :: "pyval res" where
  "outside_the_model = Inl (PyExn NotImplementedError ''outside the model'' None)"

text \<open>
  The methods of \<^verbatim>\<open>AnalystAgent\<close> below the phases, by name. Each ignores its arguments,
  except the three that hand their first argument back.
\<close>

definition analyst_methods :: "string \<Rightarrow> pyval list \<Rightarrow> pyval res" where
  "analyst_methods m args =
    (if m = ''_validate_data'' \<or> m = ''_clean_data'' \<or> m = ''_validate_external_analysis'' then
       (case args of d # _ \<Rightarrow> Inr d | [] \<Rightarrow> outside_the_model)
     else if m = ''_structure_data'' then
       (case args of d # _ \<Rightarrow> Inr (PDict [(''data'', d)]) | [] \<Rightarrow> outside_the_model)
     else if m = ''_calculate_basic_statistics'' then Inr (PDict [(''stats'', implementation_needed)])
     else if m = ''_calculate_advanced_statistics'' then
       Inr (PDict [(''advanced_stats'', implementation_needed)])
     else if m = ''_analyze_correlations'' then Inr (PDict [(''correlations'', implementation_needed)])
     else if m = ''_find_temporal_patterns'' \<or> m = ''_find_structural_patterns''
             \<or> m = ''_find_behavioral_patterns'' then
       Inr (PList [PDict [(''pattern'', implementation_needed)]])
     else if m = ''_identify_trends'' then Inr (PList [PDict [(''trend'', implementation_needed)]])
     else if m = ''_classify_trends'' then Inr (PDict [(''classifications'', PList [])])
     else if m = ''_project_trends'' then Inr (PDict [(''projections'', implementation_needed)])
     else if m = ''_derive_statistical_insights'' \<or> m = ''_derive_pattern_insights''
             \<or> m = ''_derive_trend_insights'' \<or> m = ''_derive_cross_analysis_insights''
             \<or> m = ''_generate_collaborative_insights'' then
       Inr (PList [PDict [(''insight'', implementation_needed)]])
     else if m = ''_create_recommendations'' then
       Inr (PList [PDict [(''recommendation'', implementation_needed)]])
     else if m = ''_document_methodology'' then
       Inr (PDict [(''methods'', PList [PStr ''statistical_analysis'', PStr ''pattern_recognition'',
                                       PStr ''trend_analysis'']),
                   (''tools'', PList [PStr ''numpy'', PStr ''custom_analytics'']),
                   (''validation_approach'', PStr ''cross_validation'')])
     else if m = ''_summarize_data'' then Inr (PDict [(''summary'', implementation_needed)])
     else if m = ''_combine_analyses'' then Inr (PDict [(''combined'', implementation_needed)])
     else outside_the_model)"

text \<open>
  The methods of \<^verbatim>\<open>StrategistAgent\<close> that \<^verbatim>\<open>_analyze_context\<close> and \<^verbatim>\<open>collaborate\<close> call.
  Its other phases are not written out here.
\<close>

definition strategist_methods :: "string \<Rightarrow> pyval list \<Rightarrow> pyval res" where
  "strategist_methods m args =
    (if m = ''_analyze_scope'' then Inr (PDict [(''scope'', implementation_needed)])
     else if m = ''_identify_environmental_factors'' then
       Inr (PList [PDict [(''factor'', implementation_needed)]])
     else if m = ''_analyze_stakeholders'' then
       Inr (PList [PDict [(''stakeholder'', implementation_needed)]])
     else if m = ''_integrate_perspectives'' then Inr (PDict [(''integration'', implementation_needed)])
     else if m = ''_update_strategic_plans'' then Inr PNone
     else outside_the_model)"

definition source_methods :: "BaseAgent \<Rightarrow> string \<Rightarrow> pyval list \<Rightarrow> pyval res" where
  "source_methods self m args =
     (if kind self = Analyst then analyst_methods m args
      else if kind self = Strategist then strategist_methods m args
      else outside_the_model)"

section \<open>workflow/base\_node.py\<close>

type_synonym node_ref = nat

record NodeState =
  active :: bool
  completed :: bool
  iteration :: int
  results :: "string \<rightharpoonup> pyval"
  errors :: "string list"

record NodeConfig =
  name :: string
  description :: string
  required_agents :: "string list"
  max_iterations :: int
  timeout_seconds :: int
  auto_proceed :: bool

text \<open>
  A node object. Nodes and agents are referred to by reference: the lists
  \<open>next_nodes\<close> and \<open>previous_nodes\<close> hold references to nodes, the dict
  \<open>participating_agents\<close> maps a name to a reference to an agent.
\<close>

record BaseWorkflowNode =
  config :: NodeConfig
  state :: NodeState
  next_nodes :: "node_ref list"
  previous_nodes :: "node_ref list"
  participating_agents :: "string \<rightharpoonup> agent_ref"

text \<open>The objects that exist: what each reference points to.\<close>

record world =
  agents :: "agent_ref \<Rightarrow> BaseAgent"
  nodes :: "node_ref \<Rightarrow> BaseWorkflowNode"

text \<open>The two exceptions that a node raises, each with what its message is built from.\<close>

datatype node_error =
    Missing_required_agents "string set"
      \<comment> \<open>\<^verbatim>\<open>ValueError(f"Missing required agents: {missing_agents}")\<close>\<close>
  | Max_iterations_reached int
      \<comment> \<open>\<^verbatim>\<open>RuntimeError(f"Max iterations ({max_iterations}) reached with errors")\<close>\<close>

definition NodeState_init :: NodeState where
  "NodeState_init =
     \<lparr>active = False, completed = False, iteration = 0, results = Map.empty, errors = []\<rparr>"

definition BaseWorkflowNode_init :: "NodeConfig \<Rightarrow> BaseWorkflowNode" where
  "BaseWorkflowNode_init cfg =
     \<lparr>config = cfg, state = NodeState_init, next_nodes = [], previous_nodes = [],
      participating_agents = Map.empty\<rparr>"

text \<open>
  \<^verbatim>\<open>connect_agent\<close>. \<^verbatim>\<open>str.lower\<close> is the interpreter's: it follows the case mappings of
  Unicode, which are no part of this repository, and is the parameter \<open>lower\<close>.
\<close>

definition connect_agent ::
  "(string \<Rightarrow> string) \<Rightarrow> world \<Rightarrow> node_ref \<Rightarrow> agent_ref \<Rightarrow> world" where
  "connect_agent lower w self agent =
     (let key = lower (AgentPersonality.name (personality (agents w agent)));
          n = nodes w self
      in if key \<in> set (required_agents (config n))
         then w\<lparr>nodes := (nodes w)
                 (self := n\<lparr>participating_agents := (participating_agents n)(key \<mapsto> agent)\<rparr>)\<rparr>
         else w)"

definition add_next_node :: "world \<Rightarrow> node_ref \<Rightarrow> node_ref \<Rightarrow> world" where
  "add_next_node w self node =
     (let ns1 = (nodes w)(self := (nodes w self)\<lparr>next_nodes := next_nodes (nodes w self) @ [node]\<rparr>);
          ns2 = ns1(node := (ns1 node)\<lparr>previous_nodes := previous_nodes (ns1 node) @ [self]\<rparr>)
      in w\<lparr>nodes := ns2\<rparr>)"

text \<open>The loop of \<^verbatim>\<open>validate_readiness\<close> over \<^verbatim>\<open>self.previous_nodes\<close>.\<close>

fun previous_completed :: "world \<Rightarrow> node_ref list \<Rightarrow> bool" where
  "previous_completed w [] = True"
| "previous_completed w (prev_node # rest) =
     (if \<not> completed (BaseWorkflowNode.state (nodes w prev_node)) then False
      else previous_completed w rest)"

text \<open>
  \<^verbatim>\<open>validate_readiness\<close> assigns to nothing; it returns the world it was given, next to
  its result.
\<close>

definition validate_readiness :: "world \<Rightarrow> node_ref \<Rightarrow> (node_error + bool) \<times> world" where
  "validate_readiness w self =
     (let n = nodes w self;
          missing_agents = set (required_agents (config n)) - dom (participating_agents n)
      in if missing_agents \<noteq> {} then (Inl (Missing_required_agents missing_agents), w)
         else (Inr (previous_completed w (previous_nodes n)), w))"

definition start :: "BaseWorkflowNode \<Rightarrow> BaseWorkflowNode" where
  "start self =
     self\<lparr>BaseWorkflowNode.state := (BaseWorkflowNode.state self)
       \<lparr>active := True, iteration := 0, completed := False, results := Map.empty, errors := []\<rparr>\<rparr>"

definition complete :: "BaseWorkflowNode \<Rightarrow> (string \<rightharpoonup> pyval) \<Rightarrow> BaseWorkflowNode" where
  "complete self res =
     self\<lparr>BaseWorkflowNode.state := (BaseWorkflowNode.state self)
       \<lparr>active := False, completed := True, results := res\<rparr>\<rparr>"

text \<open>
  \<^verbatim>\<open>handle_error\<close> appends first and raises afterwards, so the node it leaves behind has
  the message in both cases.
\<close>

definition handle_error :: "BaseWorkflowNode \<Rightarrow> pyexn \<Rightarrow> node_error option \<times> BaseWorkflowNode" where
  "handle_error self error =
     (let self1 = self\<lparr>BaseWorkflowNode.state := (BaseWorkflowNode.state self)
                    \<lparr>errors := errors (BaseWorkflowNode.state self) @ [str error]\<rparr>\<rparr>
      in if int (length (errors (BaseWorkflowNode.state self1))) \<ge> max_iterations (config self1)
         then (Some (Max_iterations_reached (max_iterations (config self1))), self1)
         else (None, self1))"

text \<open>
  \<^verbatim>\<open>handle_error\<close> called once for each error of a list, by a caller that catches what
  it raises: what each call raised, and the node after the last.
\<close>

fun handle_errors :: "BaseWorkflowNode \<Rightarrow> pyexn list \<Rightarrow> node_error option list \<times> BaseWorkflowNode" where
  "handle_errors self [] = ([], self)"
| "handle_errors self (e # es) =
     (let (r, self1) = handle_error self e;
          (rs, self2) = handle_errors self1 es
      in (r # rs, self2))"

text \<open>The nodes that the node operations can produce from a new node.\<close>

inductive reachable :: "NodeConfig \<Rightarrow> BaseWorkflowNode \<Rightarrow> bool" for cfg where
  reachable_init: "reachable cfg (BaseWorkflowNode_init cfg)"
| reachable_start: "reachable cfg n \<Longrightarrow> reachable cfg (start n)"
| reachable_complete: "reachable cfg n \<Longrightarrow> reachable cfg (complete n res)"
| reachable_handle_error: "reachable cfg n \<Longrightarrow> reachable cfg (snd (handle_error n e))"
| reachable_connect_agent:
    "reachable cfg n \<Longrightarrow> nodes w self = n \<Longrightarrow>
     reachable cfg (nodes (connect_agent lower w self a) self)"
| reachable_add_next_node:
    "reachable cfg n \<Longrightarrow> nodes w x = n \<Longrightarrow> reachable cfg (nodes (add_next_node w a b) x)"


definition NodeState_invariant :: "NodeState \<Rightarrow> bool" where
  "NodeState_invariant s = (completed s \<longrightarrow> \<not> active s)"

section \<open>Examples\<close>

text \<open>
  \<^verbatim>\<open>str.lower\<close> on the names of the examples. They are made of ASCII characters, of which
  \<^verbatim>\<open>str.lower\<close> maps the letters A to Z to a to z and leaves the others, and of the one
  character \<open>double_struck_capital_C\<close>, U+2102: an uppercase letter (of the general
  category Lu, and \<^verbatim>\<open>str.isupper\<close> holds of it) that has no lowercase form, so that
  \<^verbatim>\<open>str.lower\<close> leaves it as it is.
\<close>

definition ascii_lowercase :: string where
  "ascii_lowercase = ''abcdefghijklmnopqrstuvwxyz''"

definition ascii_lower_char :: "char \<Rightarrow> char" where
  "ascii_lower_char c =
     (case map_of (zip ascii_uppercase ascii_lowercase) c of Some d \<Rightarrow> d | None \<Rightarrow> c)"

definition ascii_lower :: "string \<Rightarrow> string" where
  "ascii_lower s = map ascii_lower_char s"


text \<open>
  A world for the concrete cases below: agent 1 is a new Strategist and every other agent
  a new Analyst; node 1 requires \<open>analyst\<close> and \<open>Strategist\<close>, every other
  node requires \<open>analyst\<close>; every node allows three iterations.
\<close>

definition example_config :: "string list \<Rightarrow> NodeConfig" where
  "example_config req =
     \<lparr>name = ''stage'', description = ''a stage'', required_agents = req,
      max_iterations = 3, timeout_seconds = 60, auto_proceed = True\<rparr>"

definition example_agents :: agent_heap where
  "example_agents = (\<lambda>_. BaseAgent_init Analyst)(1 := BaseAgent_init Strategist)"

definition example_world :: world where
  "example_world =
     \<lparr>agents = example_agents,
      nodes = (\<lambda>_. BaseWorkflowNode_init (example_config [''analyst'']))
                (1 := BaseWorkflowNode_init (example_config [''analyst'', ''Strategist'']))\<rparr>"

text \<open>Node 2 linked to node 0, and the Analyst connected to node 0.\<close>

definition example_graph :: world where
  "example_graph = connect_agent ascii_lower (add_next_node example_world 2 0) 0 0"

definition example_graph_completed :: world where
  "example_graph_completed =
     example_graph\<lparr>nodes := (nodes example_graph)(2 := complete (nodes example_graph 2) Map.empty)\<rparr>"

text \<open>
  An environment with the helper methods of the source, a clock reading, a choice that
  takes the first element, and \<^verbatim>\<open>dict\<close> as the one non-field attribute of the state
  object.
\<close>

definition source_env :: env where
  "source_env =
     \<lparr>method = source_methods, now = ''2024-01-01T00:00:00'',
      choice = (\<lambda>xs. case xs of [] \<Rightarrow> [] | x # _ \<Rightarrow> x),
      state_attrs = [''dict'']\<rparr>"

text \<open>
  Two environments in which a helper of the Analyst raises. In the first it is
  \<^verbatim>\<open>_validate_data\<close>, inside the data preparation phase. In the second it is
  \<^verbatim>\<open>_create_recommendations\<close>, after every phase has returned, and what it raises is an
  exception that it raised itself while handling a ValueError.
\<close>

definition bad_input :: pyexn where
  "bad_input = PyExn ValueError ''bad input'' None"

definition env_validate_fails :: env where
  "env_validate_fails =
     source_env\<lparr>method := (\<lambda>self m args.
        if m = ''_validate_data'' then Inl bad_input else source_methods self m args)\<rparr>"

definition env_recommend_fails :: env where
  "env_recommend_fails =
     source_env\<lparr>method := (\<lambda>self m args.
        if m = ''_create_recommendations''
        then Inl (PyExn Exception ''Data preparation failed: bad input'' (Some bad_input))
        else source_methods self m args)\<rparr>"



text \<open>
  The agents of the example after \<^verbatim>\<open>update_state({"confidence": None})\<close> on the
  Strategist.
\<close>

definition example_agents_unsure :: agent_heap where
  "example_agents_unsure =
     example_agents
       (1 := (example_agents 1)
          \<lparr>BaseAgent.state :=
             snd (update_state (state_attrs source_env) (BaseAgent.state (example_agents 1))
                    [(''confidence'', PNone)])\<rparr>)"

section \<open>Properties of float arithmetic\<close>

lemma rhe_cases: "round_half_even q = \<lfloor>q\<rfloor> \<or> round_half_even q = \<lfloor>q\<rfloor> + 1"
  by (simp add: round_half_even_def Let_def)

lemma rhe_of_int: "round_half_even (of_int k) = k"
  by (simp add: round_half_even_def Let_def)

lemma rhe_le: "q \<le> of_int k \<Longrightarrow> round_half_even q \<le> k"
proof -
  assume a: "q \<le> of_int k"
  show ?thesis
  proof (cases "q = of_int k")
    case True
    then show ?thesis by (simp add: rhe_of_int)
  next
    case False
    with a have "q < of_int k" by simp
    then have "\<lfloor>q\<rfloor> < k" by (simp add: floor_less_iff)
    then show ?thesis using rhe_cases [of q] by linarith
  qed
qed

lemma rhe_ge: "of_int k \<le> q \<Longrightarrow> k \<le> round_half_even q"
proof -
  assume "of_int k \<le> q"
  then have "k \<le> \<lfloor>q\<rfloor>" by (simp add: le_floor_iff)
  then show ?thesis using rhe_cases [of q] by linarith
qed

lemma rhe_error: "\<bar>of_int (round_half_even q) - q\<bar> \<le> 1 / 2"
proof -
  have "of_int \<lfloor>q\<rfloor> \<le> q" "q < of_int \<lfloor>q\<rfloor> + 1" by linarith+
  then show ?thesis
    by (auto simp: round_half_even_def Let_def abs_le_iff)
qed

lemma powr_powi: "2 powr (real_of_int e) = (2::real) powi e" "2 powr (real_of_int e + 1) = (2::real) powi (e + 1)"
proof -
  show "2 powr (real_of_int e) = (2::real) powi e" by (simp add: powr_real_of_int')
  show "2 powr (real_of_int e + 1) = (2::real) powi (e + 1)"
    using powr_real_of_int' [of 2 "e + 1"] by simp
qed

lemma floor_log2_bounds:
  assumes "0 < x"
  shows "2 powi \<lfloor>log 2 x\<rfloor> \<le> x" "x < 2 powi (\<lfloor>log 2 x\<rfloor> + 1)"
  using floor_log_eq_powr_iff [of x 2 "\<lfloor>log 2 x\<rfloor>"] assms by (simp_all add: powr_powi)

lemma floor_log2_eq:
  assumes "2 powi e \<le> x" "x < 2 powi (e + 1)"
  shows "\<lfloor>log 2 x\<rfloor> = e"
proof -
  have "(0::real) < 2 powi e" by simp
  with assms(1) have "0 < x" by linarith
  then show ?thesis
    using floor_log_eq_powr_iff [of x 2 e] assms by (simp add: powr_powi)
qed


lemma ulp_exponent_mono:
  assumes "0 < x" "x \<le> y"
  shows "ulp_exponent x \<le> ulp_exponent y"
proof -
  have "log 2 x \<le> log 2 y" using assms by (simp add: log_mono)
  then have "\<lfloor>log 2 x\<rfloor> \<le> \<lfloor>log 2 y\<rfloor>" by (rule floor_mono)
  then show ?thesis using assms by (simp add: ulp_exponent_def)
qed

lemma round_double_pos:
  "x \<noteq> 0 \<Longrightarrow>
   round_double x = of_int (round_half_even (x / 2 powi ulp_exponent x)) * 2 powi ulp_exponent x"
  by (simp add: round_double_def)

lemma round_double_0: "round_double 0 = 0"
  by (simp add: round_double_def)

lemma round_double_nonneg: "0 \<le> x \<Longrightarrow> 0 \<le> round_double x"
proof (cases "x = 0")
  case True
  then show ?thesis by (simp add: round_double_0)
next
  case False
  assume "0 \<le> x"
  then have "real_of_int 0 \<le> x / 2 powi ulp_exponent x" by simp
  then have "0 \<le> round_half_even (x / 2 powi ulp_exponent x)" by (rule rhe_ge)
  then show ?thesis using False by (simp add: round_double_pos)
qed

lemma powi_diff_int:
  assumes "a \<le> b"
  shows "(2::real) powi b / 2 powi a = of_int (2 ^ nat (b - a))"
proof -
  have "(2::real) powi b / 2 powi a = 2 powi (b - a)" by (simp add: power_int_diff)
  also have "\<dots> = 2 powi (int (nat (b - a)))" using assms by simp
  also have "\<dots> = of_int (2 ^ nat (b - a))" by (simp only: power_int_of_nat) simp
  finally show ?thesis .
qed

lemma round_double_le:
  assumes "0 \<le> x" "x \<le> c" "round_double c = c"
  shows "round_double x \<le> c"
proof (cases "x = 0")
  case True
  then show ?thesis using assms by (simp add: round_double_0)
next
  case False
  then have x: "0 < x" using assms(1) by simp
  then have c: "0 < c" using assms(2) by simp
  let ?ux = "ulp_exponent x" and ?uc = "ulp_exponent c"
  let ?kc = "round_half_even (c / 2 powi ?uc)"
  have u: "?ux \<le> ?uc" using x assms(2) by (rule ulp_exponent_mono)
  have ceq: "c = of_int ?kc * 2 powi ?uc" using assms(3) c by (simp add: round_double_pos)
  have "c / 2 powi ?ux = of_int ?kc * (2 powi ?uc / 2 powi ?ux)"
    using ceq by (metis times_divide_eq_right)
  also have "\<dots> = of_int (?kc * 2 ^ nat (?uc - ?ux))"
    unfolding powi_diff_int [OF u] by simp
  finally have cq: "c / 2 powi ?ux = of_int (?kc * 2 ^ nat (?uc - ?ux))" .
  have "x / 2 powi ?ux \<le> c / 2 powi ?ux"
    using assms(2) by (simp add: divide_right_mono)
  then have "round_half_even (x / 2 powi ?ux) \<le> ?kc * 2 ^ nat (?uc - ?ux)"
    unfolding cq by (rule rhe_le)
  then have "real_of_int (round_half_even (x / 2 powi ?ux)) \<le> c / 2 powi ?ux"
    unfolding cq by linarith
  then have "real_of_int (round_half_even (x / 2 powi ?ux)) * 2 powi ?ux \<le> c"
    by (simp add: pos_le_divide_eq)
  then show ?thesis using False by (simp add: round_double_pos)
qed

lemma round_double_grid:
  assumes "r \<noteq> 0" "r / 2 powi ulp_exponent r = of_int m"
  shows "round_double r = r"
proof -
  have "of_int m * 2 powi ulp_exponent r = r"
    using assms(2) by (simp add: field_simps)
  then show ?thesis using assms by (simp add: round_double_pos rhe_of_int)
qed

lemma round_double_error:
  "\<bar>round_double x - x\<bar> \<le> 2 powi ulp_exponent x / 2"
proof (cases "x = 0")
  case True
  then show ?thesis by (simp add: round_double_0)
next
  case False
  let ?u = "(2::real) powi ulp_exponent x"
  let ?q = "x / ?u"
  have u: "0 < ?u" by simp
  have "round_double x - x = (of_int (round_half_even ?q) - ?q) * ?u"
    using False by (simp add: round_double_pos algebra_simps)
  then have "\<bar>round_double x - x\<bar> = \<bar>of_int (round_half_even ?q) - ?q\<bar> * ?u"
    using u by (simp add: abs_mult)
  also have "\<dots> \<le> (1 / 2) * ?u"
    using rhe_error [of ?q] u by (intro mult_right_mono) simp_all
  finally show ?thesis by simp
qed

lemma ulp_exponent_eval:
  assumes "2 powi e \<le> \<bar>x\<bar>" "\<bar>x\<bar> < 2 powi (e + 1)" "- 1022 \<le> e"
  shows "ulp_exponent x = e - 52"
  using floor_log2_eq [OF assms(1,2)] assms(3) by (simp add: ulp_exponent_def)

lemma round_double_eval:
  assumes "2 powi e \<le> \<bar>x\<bar>" "\<bar>x\<bar> < 2 powi (e + 1)" "- 1022 \<le> e"
  shows "round_double x = of_int (round_half_even (x / 2 powi (e - 52))) * 2 powi (e - 52)"
proof -
  have "(0::real) < 2 powi e" by simp
  with assms(1) have "0 < \<bar>x\<bar>" by linarith
  then have "x \<noteq> 0" by simp
  then show ?thesis by (simp add: round_double_pos ulp_exponent_eval [OF assms])
qed

lemma ulp_exponent_below_1:
  assumes "0 < x" "x < 1"
  shows "ulp_exponent x \<le> - 53"
proof -
  have "x < 2 powi 0" using assms by simp
  have "\<lfloor>log 2 x\<rfloor> < 0"
  proof (rule ccontr)
    assume "\<not> \<lfloor>log 2 x\<rfloor> < 0"
    then have "0 \<le> \<lfloor>log 2 x\<rfloor>" by simp
    then have "(2::real) powi 0 \<le> 2 powi \<lfloor>log 2 x\<rfloor>" by (intro power_int_increasing) simp_all
    with floor_log2_bounds(1) [OF assms(1)] have "1 \<le> x" by simp
    with assms(2) show False by simp
  qed
  moreover have "ulp_exponent x = max \<lfloor>log 2 x\<rfloor> (- 1022) - 52"
    using assms by (simp add: ulp_exponent_def)
  ultimately show ?thesis by linarith
qed

lemma round_double_1: "round_double 1 = 1"
  by (subst round_double_eval [where e = 0]) (simp_all add: round_half_even_def)

lemma round_double_error_below_1:
  assumes "0 \<le> x" "x \<le> 1"
  shows "\<bar>round_double x - x\<bar> \<le> 1 / 2 ^ 54"
proof (cases "x = 0 \<or> x = 1")
  case True
  then show ?thesis by (auto simp: round_double_0 round_double_1)
next
  case False
  then have "0 < x" "x < 1" using assms by simp_all
  then have "ulp_exponent x \<le> - 53" by (rule ulp_exponent_below_1)
  then have "(2::real) powi ulp_exponent x \<le> 2 powi (- 53)"
    by (intro power_int_increasing) simp_all
  then have "(2::real) powi ulp_exponent x / 2 \<le> 2 powi (- 53) / 2" by simp
  also have "\<dots> = 1 / 2 ^ 54" by (simp add: power_int_minus field_simps)
  finally show ?thesis using round_double_error [of x] by linarith
qed


lemma floor_log2_less:
  assumes "0 < r" "r < 2 powi k"
  shows "\<lfloor>log 2 r\<rfloor> < k"
proof (rule ccontr)
  assume "\<not> \<lfloor>log 2 r\<rfloor> < k"
  then have "k \<le> \<lfloor>log 2 r\<rfloor>" by simp
  then have "(2::real) powi k \<le> 2 powi \<lfloor>log 2 r\<rfloor>" by (intro power_int_increasing) simp_all
  with floor_log2_bounds(1) [OF assms(1)] assms(2) show False by linarith
qed

lemma round_double_idem:
  assumes "0 \<le> x"
  shows "round_double (round_double x) = round_double x"
proof (cases "x = 0")
  case True
  then show ?thesis by (simp add: round_double_0)
next
  case False
  then have x: "0 < x" using assms by simp
  define E where "E = max \<lfloor>log 2 x\<rfloor> (- 1022)"
  define n where "n = round_half_even (x / 2 powi (E - 52))"
  define r where "r = round_double x"
  have ux: "ulp_exponent x = E - 52" using x by (simp add: ulp_exponent_def E_def)
  have r: "r = of_int n * 2 powi (E - 52)"
    using False by (simp add: r_def n_def round_double_pos ux)
  have E: "- 1022 \<le> E" "\<lfloor>log 2 x\<rfloor> \<le> E" by (simp_all add: E_def)
  have "(2::real) powi (\<lfloor>log 2 x\<rfloor> + 1) \<le> 2 powi (E + 1)"
    using E(2) by (intro power_int_increasing) simp_all
  then have xlt: "x < 2 powi (E + 1)" using floor_log2_bounds(2) [OF x] by linarith
  have top: "(2::real) powi (E + 1) / 2 powi (E - 52) = of_int (2 ^ 53)"
    using powi_diff_int [of "E - 52" "E + 1"] by simp
  have "x / 2 powi (E - 52) \<le> 2 powi (E + 1) / 2 powi (E - 52)"
    using xlt by (simp add: divide_right_mono)
  then have n53: "n \<le> 2 ^ 53" unfolding top n_def by (rule rhe_le)
  have "real_of_int 0 \<le> x / 2 powi (E - 52)" using x by simp
  then have n0: "0 \<le> n" unfolding n_def by (rule rhe_ge)
  have "r \<le> of_int (2 ^ 53) * 2 powi (E - 52)"
    unfolding r using n53 by (intro mult_right_mono) (simp_all add: of_int_le_iff [symmetric] del: of_int_le_iff)
  also have "\<dots> = 2 powi (E + 1)"
    using top by (simp add: field_simps)
  finally have rle: "r \<le> 2 powi (E + 1)" .
  show ?thesis
  proof (cases "n = 0")
    case True
    then have "r = 0" by (simp add: r)
    then show ?thesis by (simp add: r_def [symmetric] round_double_0)
  next
    case False
    with n0 have "0 < n" by simp
    then have rpos: "0 < r" by (simp add: r)
    have "round_double r = r"
    proof (cases "r < 2 powi (E + 1)")
      case True
      have "\<lfloor>log 2 r\<rfloor> < E + 1" using rpos True by (rule floor_log2_less)
      then have ur: "ulp_exponent r \<le> E - 52"
        using rpos E(1) by (simp add: ulp_exponent_def)
      have "r / 2 powi ulp_exponent r = of_int n * (2 powi (E - 52) / 2 powi ulp_exponent r)"
        by (simp add: r)
      also have "\<dots> = of_int (n * 2 ^ nat (E - 52 - ulp_exponent r))"
        unfolding powi_diff_int [OF ur] by simp
      finally have "r / 2 powi ulp_exponent r = of_int (n * 2 ^ nat (E - 52 - ulp_exponent r))" .
      moreover have "r \<noteq> 0" using rpos by simp
      ultimately show ?thesis by (rule round_double_grid [rotated])
    next
      case False
      with rle have req: "r = 2 powi (E + 1)" by simp
      have "(2::real) powi (E + 1) < 2 powi (E + 1 + 1)"
        by (intro power_int_strict_increasing) simp_all
      then have "ulp_exponent r = E + 1 - 52"
        using E(1) by (intro ulp_exponent_eval) (simp_all add: req)
      then have "r / 2 powi ulp_exponent r = of_int (2 ^ 52)"
        using powi_diff_int [of "E - 51" "E + 1"] by (simp add: req)
      moreover have "r \<noteq> 0" using rpos by simp
      ultimately show ?thesis by (rule round_double_grid [rotated])
    qed
    then show ?thesis by (simp add: r_def)
  qed
qed

text \<open>The product of a double with a factor between 0 and 1.\<close>

lemma is_double_mul:
  assumes "is_double c" "0 \<le> c" "0 \<le> f" "f \<le> 1"
  shows "is_double (round_double (c * f))" "0 \<le> round_double (c * f)" "round_double (c * f) \<le> c"
proof -
  have p: "0 \<le> c * f" "c * f \<le> c" using assms by (simp_all add: mult_left_le)
  show nn: "0 \<le> round_double (c * f)" using p(1) by (rule round_double_nonneg)
  show le: "round_double (c * f) \<le> c"
    using p assms(1) by (intro round_double_le) (simp_all add: is_double_def)
  show "is_double (round_double (c * f))"
    using nn le assms(1) by (simp add: is_double_def round_double_idem [OF p(1)])
qed


lemma is_double_1: "is_double 1"
  by (simp add: is_double_def round_double_1)

lemma float_literal_unit:
  assumes "0 \<le> r" "r \<le> 1"
  shows "0 \<le> float_literal r" "float_literal r \<le> 1" "\<bar>float_literal r - r\<bar> \<le> 1 / 2 ^ 54"
proof -
  show "0 \<le> float_literal r"
    unfolding float_literal_def using assms(1) by (rule round_double_nonneg)
  show "float_literal r \<le> 1"
    unfolding float_literal_def using assms round_double_1 by (rule round_double_le)
  show "\<bar>float_literal r - r\<bar> \<le> 1 / 2 ^ 54"
    unfolding float_literal_def using assms by (rule round_double_error_below_1)
qed

lemma float_mul_double:
  assumes "is_double c" "0 \<le> c" "0 \<le> f" "f \<le> 1"
  shows "is_double (float_mul c f)" "0 \<le> float_mul c f" "float_mul c f \<le> c"
  unfolding float_mul_def using assms by (rule is_double_mul)+

text \<open>
  One multiplication by the float of a literal \<open>r\<close> between 0 and 1, on a float between 0
  and 1: the result is within \<open>1 / 2 ^ 53\<close> of the exact product with \<open>r\<close>.
\<close>

lemma float_mul_literal_error:
  assumes c: "0 \<le> c" "c \<le> 1" and r: "0 \<le> r" "r \<le> 1"
  shows "\<bar>float_mul c (float_literal r) - r * c\<bar> \<le> 1 / 2 ^ 53"
proof -
  let ?d = "float_literal r"
  note d = float_literal_unit [OF r]
  have p: "0 \<le> c * ?d" "c * ?d \<le> 1"
    using c d(1,2) by (simp_all add: mult_le_one)
  have e1: "\<bar>round_double (c * ?d) - c * ?d\<bar> \<le> 1 / 2 ^ 54"
    using p by (rule round_double_error_below_1)
  have "c * ?d - r * c = c * (?d - r)" by (simp add: algebra_simps)
  then have "\<bar>c * ?d - r * c\<bar> = \<bar>c\<bar> * \<bar>?d - r\<bar>" by (simp only: abs_mult)
  also have "\<dots> = c * \<bar>?d - r\<bar>" using c(1) by simp
  also have "\<dots> \<le> 1 * (1 / 2 ^ 54)"
    using c d(3) by (intro mult_mono) simp_all
  finally have e2: "\<bar>c * ?d - r * c\<bar> \<le> 1 / 2 ^ 54" by simp
  have "\<bar>float_mul c ?d - r * c\<bar> \<le> \<bar>round_double (c * ?d) - c * ?d\<bar> + \<bar>c * ?d - r * c\<bar>"
    unfolding float_mul_def by linarith
  also have "\<dots> \<le> 1 / 2 ^ 54 + 1 / 2 ^ 54" using e1 e2 by linarith
  also have "\<dots> = (1::real) / 2 ^ 53" by simp
  finally show ?thesis .
qed

text \<open>
  \<open>N\<close> such multiplications from 1.0: every result is a double between 0 and 1, and is
  within \<open>B\<close> of \<open>r ^ N\<close> when \<open>1 / 2 ^ 53 + r * B \<le> B\<close>.
\<close>

lemma float_mul_literal_power:
  assumes r: "0 \<le> r" "r \<le> 1" and B: "0 \<le> B" "1 / 2 ^ 53 + r * B \<le> B"
  shows "is_double (((\<lambda>c. float_mul c (float_literal r)) ^^ N) 1)
         \<and> 0 \<le> ((\<lambda>c. float_mul c (float_literal r)) ^^ N) 1
         \<and> ((\<lambda>c. float_mul c (float_literal r)) ^^ N) 1 \<le> 1
         \<and> \<bar>((\<lambda>c. float_mul c (float_literal r)) ^^ N) 1 - r ^ N\<bar> \<le> B"
proof (induction N)
  case 0
  show ?case using B(1) by (simp add: is_double_1)
next
  case (Suc N)
  let ?v = "((\<lambda>c. float_mul c (float_literal r)) ^^ N) 1"
  let ?d = "float_literal r"
  note d = float_literal_unit [OF r]
  from Suc have v: "is_double ?v" "0 \<le> ?v" "?v \<le> 1" "\<bar>?v - r ^ N\<bar> \<le> B" by simp_all
  note m = float_mul_double [OF v(1,2) d(1,2)]
  have e: "\<bar>float_mul ?v ?d - r * ?v\<bar> \<le> 1 / 2 ^ 53"
    using v(2,3) r by (rule float_mul_literal_error)
  have "r * ?v - r * r ^ N = r * (?v - r ^ N)" by (simp add: algebra_simps)
  then have "\<bar>r * ?v - r * r ^ N\<bar> = \<bar>r\<bar> * \<bar>?v - r ^ N\<bar>" by (simp only: abs_mult)
  also have "\<dots> = r * \<bar>?v - r ^ N\<bar>" using r(1) by simp
  also have "\<dots> \<le> r * B" using v(4) r(1) by (rule mult_left_mono)
  finally have e2: "\<bar>r * ?v - r * r ^ N\<bar> \<le> r * B" .
  have "\<bar>float_mul ?v ?d - r ^ Suc N\<bar> \<le> \<bar>float_mul ?v ?d - r * ?v\<bar> + \<bar>r * ?v - r * r ^ N\<bar>"
    by simp
  also have "\<dots> \<le> 1 / 2 ^ 53 + r * B" using e e2 by linarith
  also have "\<dots> \<le> B" by (rule B(2))
  finally have e3: "\<bar>float_mul ?v ?d - r ^ Suc N\<bar> \<le> B" .
  show ?case using m v(3) e3 by simp
qed

subsection \<open>The floats of the source, evaluated\<close>

lemma float_literal_0_8: "float_literal 0.8 = 7205759403792794 / 2 ^ 53"
  unfolding float_literal_def
  by (subst round_double_eval [where e = "- 1"])
     (simp_all add: round_half_even_def Let_def power_int_minus)

lemma float_literal_0_9: "float_literal 0.9 = 8106479329266893 / 2 ^ 53"
  unfolding float_literal_def
  by (subst round_double_eval [where e = "- 1"])
     (simp_all add: round_half_even_def Let_def power_int_minus)

lemma float_mul_1_0_8: "float_mul 1 (float_literal 0.8) = 7205759403792794 / 2 ^ 53"
  unfolding float_mul_def float_literal_0_8
  by (subst round_double_eval [where e = "- 1"])
     (simp_all add: round_half_even_def Let_def power_int_minus)

lemma float_mul_1_0_9: "float_mul 1 (float_literal 0.9) = 8106479329266893 / 2 ^ 53"
  unfolding float_mul_def float_literal_0_9
  by (subst round_double_eval [where e = "- 1"])
     (simp_all add: round_half_even_def Let_def power_int_minus)

lemma float_mul_0_8_0_8:
  "float_mul (7205759403792794 / 2 ^ 53) (float_literal 0.8) = 5764607523034236 / 2 ^ 53"
  unfolding float_mul_def float_literal_0_8
  by (subst round_double_eval [where e = "- 1"])
     (simp_all add: round_half_even_def Let_def power_int_minus)

lemma float_mul_0_8_0_9:
  "float_mul (7205759403792794 / 2 ^ 53) (float_literal 0.9) = 6485183463413515 / 2 ^ 53"
  unfolding float_mul_def float_literal_0_9
  by (subst round_double_eval [where e = "- 1"])
     (simp_all add: round_half_even_def Let_def power_int_minus)

lemma float_mul_0_9_0_9:
  "float_mul (8106479329266893 / 2 ^ 53) (float_literal 0.9) = 7295831396340204 / 2 ^ 53"
  unfolding float_mul_def float_literal_0_9
  by (subst round_double_eval [where e = "- 1"])
     (simp_all add: round_half_even_def Let_def power_int_minus)

lemma float_mul_0_64_0_8:
  "float_mul (5764607523034236 / 2 ^ 53) (float_literal 0.8) = 4611686018427389 / 2 ^ 53"
  unfolding float_mul_def float_literal_0_8
  by (subst round_double_eval [where e = "- 1"])
     (simp_all add: round_half_even_def Let_def power_int_minus)

lemma float_mul_0_512_0_8:
  "float_mul (4611686018427389 / 2 ^ 53) (float_literal 0.8) = 7378697629483823 / 2 ^ 54"
  unfolding float_mul_def float_literal_0_8
  by (subst round_double_eval [where e = "- 2"])
     (simp_all add: round_half_even_def Let_def power_int_minus)


section \<open>The examples, evaluated\<close>

lemma lower_Analyst: "ascii_lower ''Analyst'' = ''analyst''"
  by (simp add: ascii_lower_def ascii_lower_char_def ascii_uppercase_def ascii_lowercase_def)

lemma lower_Strategist: "ascii_lower ''Strategist'' = ''strategist''"
  by (simp add: ascii_lower_def ascii_lower_char_def ascii_uppercase_def ascii_lowercase_def)


lemma example_agents_name:
  "AgentPersonality.name (personality (example_agents a)) = (if a = 1 then ''Strategist'' else ''Analyst'')"
  by (simp add: example_agents_def BaseAgent_init_def personality_of_def)

lemma example_world_nodes:
  "nodes example_world x =
     BaseWorkflowNode_init (example_config (if x = 1 then [''analyst'', ''Strategist''] else [''analyst'']))"
  by (simp add: example_world_def)

lemma example_world_agents: "agents example_world = example_agents"
  by (simp add: example_world_def)

lemma example_graph_node_0:
  "nodes example_graph 0 =
     (BaseWorkflowNode_init (example_config [''analyst'']))
       \<lparr>previous_nodes := [2], participating_agents := [''analyst'' \<mapsto> 0]\<rparr>"
  by (simp add: example_graph_def connect_agent_def add_next_node_def Let_def example_world_nodes
      example_world_agents example_agents_name lower_Analyst example_config_def
      BaseWorkflowNode_init_def)

lemma example_graph_node_2:
  "nodes example_graph 2 =
     (BaseWorkflowNode_init (example_config [''analyst'']))\<lparr>next_nodes := [0]\<rparr>"
  by (simp add: example_graph_def connect_agent_def add_next_node_def Let_def example_world_nodes
      example_world_agents example_agents_name lower_Analyst example_config_def
      BaseWorkflowNode_init_def)


lemma example_connected_node_1:
  "nodes (connect_agent ascii_lower (connect_agent ascii_lower example_world 1 0) 1 1) 1 =
     (BaseWorkflowNode_init (example_config [''analyst'', ''Strategist'']))
       \<lparr>participating_agents := [''analyst'' \<mapsto> 0]\<rparr>"
  by (simp add: connect_agent_def Let_def example_world_nodes
      example_world_agents example_agents_name lower_Analyst lower_Strategist example_config_def
      BaseWorkflowNode_init_def)

section \<open>Properties of workflow/base\_node.py\<close>

subsection \<open>validate\_readiness\<close>

lemma previous_completed_all:
  "previous_completed w ps = (\<forall>p \<in> set ps. completed (BaseWorkflowNode.state (nodes w p)))"
  by (induction ps) auto

text \<open>
  C2. \<^verbatim>\<open>validate_readiness\<close> raises the ValueError that names the missing agents when the
  keys of \<open>participating_agents\<close> do not cover \<open>required_agents\<close>. Otherwise it
  returns whether every node of \<open>previous_nodes\<close> is completed: true exactly when all
  of them are. In both cases the world is as it was: no node and no agent has changed.
\<close>

theorem validate_readiness_spec:
  "(\<not> set (required_agents (config (nodes w self))) \<subseteq> dom (participating_agents (nodes w self)) \<longrightarrow>
      fst (validate_readiness w self) =
        Inl (Missing_required_agents
               (set (required_agents (config (nodes w self))) - dom (participating_agents (nodes w self)))))
   \<and> (set (required_agents (config (nodes w self))) \<subseteq> dom (participating_agents (nodes w self)) \<longrightarrow>
      fst (validate_readiness w self) =
        Inr (\<forall>p \<in> set (previous_nodes (nodes w self)). completed (BaseWorkflowNode.state (nodes w p))))
   \<and> snd (validate_readiness w self) = w"
  by (auto simp: validate_readiness_def Let_def previous_completed_all)

text \<open>
  In the example graph node 0 has its agent and one predecessor, node 2: it is not ready
  before node 2 completes and ready after. Node 1 requires \<open>Strategist\<close>, which no
  connected agent provides.
\<close>

theorem validate_readiness_witness:
  "fst (validate_readiness example_graph 0) = Inr False
   \<and> fst (validate_readiness example_graph_completed 0) = Inr True
   \<and> fst (validate_readiness
             (connect_agent ascii_lower (connect_agent ascii_lower example_world 1 0) 1 1) 1) =
       Inl (Missing_required_agents {''Strategist''})
   \<and> snd (validate_readiness
             (connect_agent ascii_lower (connect_agent ascii_lower example_world 1 0) 1 1) 1) =
       connect_agent ascii_lower (connect_agent ascii_lower example_world 1 0) 1 1"
proof -
  have a: "fst (validate_readiness example_graph 0) = Inr False"
    using validate_readiness_spec [of example_graph 0]
    by (simp add: example_graph_node_0 example_graph_node_2 BaseWorkflowNode_init_def
        example_config_def NodeState_init_def)
  have b: "fst (validate_readiness example_graph_completed 0) = Inr True"
    using validate_readiness_spec [of example_graph_completed 0]
    by (simp add: example_graph_completed_def example_graph_node_0 example_graph_node_2
        BaseWorkflowNode_init_def example_config_def NodeState_init_def complete_def)
  have c: "fst (validate_readiness
             (connect_agent ascii_lower (connect_agent ascii_lower example_world 1 0) 1 1) 1) =
       Inl (Missing_required_agents {''Strategist''})
   \<and> snd (validate_readiness
             (connect_agent ascii_lower (connect_agent ascii_lower example_world 1 0) 1 1) 1) =
       connect_agent ascii_lower (connect_agent ascii_lower example_world 1 0) 1 1"
    using validate_readiness_spec
      [of "connect_agent ascii_lower (connect_agent ascii_lower example_world 1 0) 1 1" 1]
    unfolding example_connected_node_1
    by (simp add: BaseWorkflowNode_init_def example_config_def)
  show ?thesis using a b c by simp
qed

subsection \<open>handle\_error\<close>

lemma handle_error_snd:
  "snd (handle_error n e) =
     n\<lparr>BaseWorkflowNode.state := (BaseWorkflowNode.state n)
         \<lparr>errors := errors (BaseWorkflowNode.state n) @ [str e]\<rparr>\<rparr>"
  by (simp add: handle_error_def Let_def)

lemma handle_error_fst:
  "fst (handle_error n e) =
     (if max_iterations (config n) \<le> int (length (errors (BaseWorkflowNode.state n))) + 1
      then Some (Max_iterations_reached (max_iterations (config n))) else None)"
  by (simp add: handle_error_def Let_def)

lemma handle_errors_snd:
  "snd (handle_errors n es) =
     n\<lparr>BaseWorkflowNode.state := (BaseWorkflowNode.state n)
         \<lparr>errors := errors (BaseWorkflowNode.state n) @ map str es\<rparr>\<rparr>"
proof (induction es arbitrary: n)
  case Nil
  show ?case by simp
next
  case (Cons e es)
  have "snd (handle_errors n (e # es)) = snd (handle_errors (snd (handle_error n e)) es)"
    by (simp add: split_beta Let_def)
  then show ?case by (simp add: Cons.IH handle_error_snd)
qed

lemma handle_errors_length: "length (fst (handle_errors n es)) = length es"
  by (induction es arbitrary: n) (simp_all add: split_beta Let_def)

lemma handle_errors_nth:
  "i < length es \<Longrightarrow>
   fst (handle_errors n es) ! i =
     (if max_iterations (config n) \<le> int (length (errors (BaseWorkflowNode.state n))) + int i + 1
      then Some (Max_iterations_reached (max_iterations (config n))) else None)"
proof (induction es arbitrary: n i)
  case Nil
  then show ?case by simp
next
  case (Cons e es)
  have unfold: "fst (handle_errors n (e # es)) =
      fst (handle_error n e) # fst (handle_errors (snd (handle_error n e)) es)"
    by (simp add: split_beta Let_def)
  show ?case
  proof (cases i)
    case 0
    then show ?thesis by (simp add: unfold handle_error_fst del: handle_errors.simps)
  next
    case (Suc j)
    with Cons.prems have j: "j < length es" by simp
    show ?thesis
      using Cons.IH [OF j, of "snd (handle_error n e)"] Suc
      by (simp add: unfold handle_error_snd add.commute add.left_commute del: handle_errors.simps)
  qed
qed

text \<open>
  C3. On a node with \<open>max_iterations \<ge> 1\<close> and no errors yet, of \<open>max_iterations\<close>
  calls of \<^verbatim>\<open>handle_error\<close> the last one raises and the ones before it do not; stopping
  one call earlier, none has raised. Every call has appended its message, the raising
  one too.
\<close>

theorem handle_error_max_iterations:
  assumes "1 \<le> max_iterations (config n)"
    and "errors (BaseWorkflowNode.state n) = []"
    and "int (length es) = max_iterations (config n)"
  shows "fst (handle_errors n es) =
           replicate (length es - 1) None @ [Some (Max_iterations_reached (max_iterations (config n)))]
         \<and> fst (handle_errors n (butlast es)) = replicate (length es - 1) None
         \<and> errors (BaseWorkflowNode.state (snd (handle_errors n es))) = map str es
         \<and> errors (BaseWorkflowNode.state (snd (handle_errors n (butlast es)))) = map str (butlast es)"
proof -
  have pos: "0 < length es" using assms(1,3) by auto
  have raised: "fst (handle_errors n xs) ! i =
      (if length es \<le> i + 1 then Some (Max_iterations_reached (max_iterations (config n))) else None)"
    if "i < length xs" for xs i
  proof -
    have "(max_iterations (config n) \<le> int i + 1) = (length es \<le> i + 1)"
      using assms(3) by linarith
    then show ?thesis
      using handle_errors_nth [OF that, of n] assms(2) by simp
  qed
  have a: "fst (handle_errors n es) =
           replicate (length es - 1) None @ [Some (Max_iterations_reached (max_iterations (config n)))]"
  proof (rule nth_equalityI)
    show "length (fst (handle_errors n es)) =
          length (replicate (length es - 1) None @ [Some (Max_iterations_reached (max_iterations (config n)))])"
      using pos by (simp add: handle_errors_length)
  next
    fix i assume "i < length (fst (handle_errors n es))"
    then have i: "i < length es" by (simp add: handle_errors_length)
    show "fst (handle_errors n es) ! i =
          (replicate (length es - 1) None @ [Some (Max_iterations_reached (max_iterations (config n)))]) ! i"
    proof (cases "i < length es - 1")
      case True
      then show ?thesis by (simp add: raised [OF i] nth_append)
    next
      case False
      with i have eq: "i = length es - 1" by simp
      then have le: "length es \<le> i + 1" by simp
      have "fst (handle_errors n es) ! i = Some (Max_iterations_reached (max_iterations (config n)))"
        using le by (simp add: raised [OF i])
      then show ?thesis using eq by (simp add: nth_append)
    qed
  qed
  have b: "fst (handle_errors n (butlast es)) = replicate (length es - 1) None"
  proof (rule nth_equalityI)
    show "length (fst (handle_errors n (butlast es))) = length (replicate (length es - 1) None)"
      by (simp add: handle_errors_length)
  next
    fix i assume "i < length (fst (handle_errors n (butlast es)))"
    then have i: "i < length (butlast es)" by (simp add: handle_errors_length)
    then have "i < length es - 1" by simp
    then show "fst (handle_errors n (butlast es)) ! i = replicate (length es - 1) None ! i"
      by (simp add: raised [OF i])
  qed
  show ?thesis using a b assms(2) by (simp add: handle_errors_snd)
qed

theorem handle_error_max_iterations_witness:
  "fst (handle_errors (BaseWorkflowNode_init (example_config [''analyst'']))
         [PyExn Exception ''a'' None, PyExn Exception ''b'' None, PyExn Exception ''c'' None]) =
     [None, None, Some (Max_iterations_reached 3)]
   \<and> fst (handle_errors (BaseWorkflowNode_init (example_config [''analyst'']))
         [PyExn Exception ''a'' None, PyExn Exception ''b'' None]) = [None, None]
   \<and> errors (BaseWorkflowNode.state (snd (handle_errors (BaseWorkflowNode_init (example_config [''analyst'']))
         [PyExn Exception ''a'' None, PyExn Exception ''b'' None, PyExn Exception ''c'' None]))) =
     [''a'', ''b'', ''c'']"
  using handle_error_max_iterations [of "BaseWorkflowNode_init (example_config [''analyst''])"
      "[PyExn Exception ''a'' None, PyExn Exception ''b'' None, PyExn Exception ''c'' None]"]
  by (simp add: BaseWorkflowNode_init_def example_config_def NodeState_init_def numeral_3_eq_3)

subsection \<open>start and the invariant of NodeState\<close>

text \<open>
  C5. Whatever the node was, after \<^verbatim>\<open>start\<close> its iteration counter is 0, its results and
  errors are empty, it is active and it is not completed.
\<close>

theorem start_resets:
  "iteration (BaseWorkflowNode.state (start n)) = 0
   \<and> results (BaseWorkflowNode.state (start n)) = Map.empty
   \<and> errors (BaseWorkflowNode.state (start n)) = []
   \<and> active (BaseWorkflowNode.state (start n))
   \<and> \<not> completed (BaseWorkflowNode.state (start n))"
  by (simp add: start_def)

lemma connect_agent_state:
  "BaseWorkflowNode.state (nodes (connect_agent lower w self a) x) = BaseWorkflowNode.state (nodes w x)"
  by (simp add: connect_agent_def Let_def)

lemma add_next_node_state: "BaseWorkflowNode.state (nodes (add_next_node w a b) x) = BaseWorkflowNode.state (nodes w x)"
  by (simp add: add_next_node_def Let_def)

text \<open>
  C6. \<open>completed \<longrightarrow> \<not> active\<close> holds in a new node, holds after \<^verbatim>\<open>start\<close> and after
  \<^verbatim>\<open>complete\<close> from any node, and is kept by \<^verbatim>\<open>handle_error\<close>; so no node that the
  operations produce from a new one is both completed and active.
\<close>

theorem NodeState_invariant_holds:
  "NodeState_invariant (BaseWorkflowNode.state (BaseWorkflowNode_init cfg))
   \<and> NodeState_invariant (BaseWorkflowNode.state (start n))
   \<and> NodeState_invariant (BaseWorkflowNode.state (complete n res))
   \<and> (NodeState_invariant (BaseWorkflowNode.state n) \<longrightarrow>
        NodeState_invariant (BaseWorkflowNode.state (snd (handle_error n e))))
   \<and> (reachable cfg m \<longrightarrow>
        \<not> (completed (BaseWorkflowNode.state m) \<and> active (BaseWorkflowNode.state m)))"
proof -
  have r: "reachable cfg m \<Longrightarrow> NodeState_invariant (BaseWorkflowNode.state m)"
    by (induction rule: reachable.induct)
       (auto simp: NodeState_invariant_def BaseWorkflowNode_init_def NodeState_init_def start_def
          complete_def handle_error_def Let_def connect_agent_state add_next_node_state)
  show ?thesis
    using r by (auto simp: NodeState_invariant_def BaseWorkflowNode_init_def NodeState_init_def
        start_def complete_def handle_error_def Let_def)
qed


theorem NodeState_invariant_witness:
  "reachable (example_config [])
     (complete (start (BaseWorkflowNode_init (example_config []))) Map.empty)
   \<and> completed (BaseWorkflowNode.state
        (complete (start (BaseWorkflowNode_init (example_config []))) Map.empty))
   \<and> \<not> active (BaseWorkflowNode.state
        (complete (start (BaseWorkflowNode_init (example_config []))) Map.empty))
   \<and> NodeState_invariant (BaseWorkflowNode.state (start (BaseWorkflowNode_init (example_config []))))
   \<and> NodeState_invariant (BaseWorkflowNode.state
        (snd (handle_error (start (BaseWorkflowNode_init (example_config [])))
               (PyExn Exception ''a'' None))))"
proof -
  have r: "reachable (example_config [])
     (complete (start (BaseWorkflowNode_init (example_config []))) Map.empty)"
    by (intro reachable.intros)
  have s: "NodeState_invariant (BaseWorkflowNode.state (start (BaseWorkflowNode_init (example_config []))))"
    by (simp add: NodeState_invariant_def start_def)
  show ?thesis
    using r s NodeState_invariant_holds [where cfg = "example_config []"
        and n = "start (BaseWorkflowNode_init (example_config []))"
        and e = "PyExn Exception ''a'' None"
        and m = "complete (start (BaseWorkflowNode_init (example_config []))) Map.empty"]
    by (simp add: complete_def)
qed

subsection \<open>add\_next\_node\<close>

text \<open>
  C4, as the code has it. After \<^verbatim>\<open>A.add_next_node(B)\<close>, B is in A's \<open>next_nodes\<close> and
  A is in B's \<open>previous_nodes\<close>, and each call adds one more occurrence of each: the
  method appends and does not look for an edge that is already there.
\<close>

theorem add_next_node_links:
  "node \<in> set (next_nodes (nodes (add_next_node w self node) self))
   \<and> self \<in> set (previous_nodes (nodes (add_next_node w self node) node))
   \<and> count_list (next_nodes (nodes (add_next_node w self node) self)) node =
       count_list (next_nodes (nodes w self)) node + 1
   \<and> count_list (previous_nodes (nodes (add_next_node w self node) node)) self =
       count_list (previous_nodes (nodes w node)) self + 1"
  by (simp add: add_next_node_def Let_def)

text \<open>Called twice on new nodes 0 and 1, each list holds the other node twice.\<close>

theorem add_next_node_twice_counterexample:
  "count_list (next_nodes (nodes (add_next_node (add_next_node example_world 0 1) 0 1) 0)) 1 = 2
   \<and> count_list (previous_nodes (nodes (add_next_node (add_next_node example_world 0 1) 0 1) 1)) 0 = 2"
  by (simp add: add_next_node_def Let_def example_world_def BaseWorkflowNode_init_def)

subsection \<open>connect\_agent\<close>












section \<open>Properties of the agents\<close>

subsection \<open>process\<close>

lemma bind_res_Inr: "(bind_res r f = Inr v) = (\<exists>x. r = Inr x \<and> f x = Inr v)"
  by (cases r) (simp_all add: bind_res_def)

lemma update_state_current_task:
  "update_state attrs s [(''current_task'', v)] = (None, s\<lparr>current_task := v\<rparr>)"
  by (simp add: field_names_def setattr_field_def)

lemma analyst_process_try_self:
  "analyst_process_try E self inp = Inr (r, self') \<Longrightarrow>
   self' = self\<lparr>analysis_history := analysis_history self @ [r], current_analysis := r\<rparr>"
  by (auto simp: analyst_process_try_def bind_res_Inr Let_def)

lemma strategist_process_try_self:
  "strategist_process_try E self inp = Inr (r, self') \<Longrightarrow>
   \<exists>plans. self' = self\<lparr>strategic_plans := plans\<rparr>"
  by (auto simp: strategist_process_try_def bind_res_Inr Let_def)

lemma process_try_self:
  assumes "process_try E self inp = Inr (r, self')"
  shows "BaseAgent.state self' = BaseAgent.state self" and "kind self' = kind self"
    and "personality self' = personality self"
  using assms analyst_process_try_self [of E self inp r self']
    strategist_process_try_self [of E self inp r self']
  by (auto simp: process_try_def bind_res_Inr split: if_splits)

lemma except_handler_float:
  "confidence_of h a = PFloat c \<Longrightarrow>
   except_handler f l e a h =
     (Inl (PyExn Exception (l @ str e) (Some e)),
      h(a := (h a)\<lparr>BaseAgent.state := (BaseAgent.state (h a))\<lparr>confidence := PFloat (float_mul c f)\<rparr>\<rparr>))"
  by (simp add: except_handler_def confidence_of_def)

lemma except_handler_not_float:
  "\<not> is_float (confidence_of h a) \<Longrightarrow>
   \<exists>m. except_handler f l e a h = (Inl (PyExn TypeError m (Some e)), h)"
  by (cases "confidence_of h a")
     (simp_all add: except_handler_def confidence_of_def unsupported_imul_def sequence_imul_def)

lemma except_handler_frame: "b \<noteq> a \<Longrightarrow> snd (except_handler f l e a h) b = h b"
  by (simp add: except_handler_def split: sum.splits pyexn.splits)

lemma except_handler_kind:
  "kind (snd (except_handler f l e a h) b) = kind (h b)"
  "personality (snd (except_handler f l e a h) b) = personality (h b)"
  by (simp_all add: except_handler_def split: sum.splits pyexn.splits)

lemma process_eq:
  "process E h a inp =
     (case process_try E (task_set h a (PStr (process_task (kind (h a)))) a) inp of
        Inr (r, self') \<Rightarrow> (Inr r, (task_set h a (PStr (process_task (kind (h a)))))(a := self'))
      | Inl e \<Rightarrow> except_handler (float_literal 0.8) (process_failed (kind (h a))) e a
                  (task_set h a (PStr (process_task (kind (h a))))))"
  unfolding process_def update_state_current_task
  by (simp add: task_set_def Let_def split: sum.splits prod.splits)

lemma task_set_simps:
  "b \<noteq> a \<Longrightarrow> task_set h a v b = h b"
  "kind (task_set h a v b) = kind (h b)"
  "personality (task_set h a v b) = personality (h b)"
  "confidence_of (task_set h a v) b = confidence_of h b"
  "current_task (BaseAgent.state (task_set h a v a)) = v"
  by (simp_all add: task_set_def confidence_of_def)

lemma process_frame: "b \<noteq> a \<Longrightarrow> snd (process E h a inp) b = h b"
  by (simp add: process_eq except_handler_frame task_set_simps split: sum.splits prod.splits)

lemma process_kind:
  "kind (snd (process E h a inp) b) = kind (h b)"
  "personality (snd (process E h a inp) b) = personality (h b)"
  by (auto simp: process_eq except_handler_kind task_set_simps
      dest: process_try_self split: sum.splits prod.splits)

lemma process_Inr:
  assumes "fst (process E h a inp) = Inr r"
  shows "confidence_of (snd (process E h a inp)) b = confidence_of h b"
proof (cases "process_try E (task_set h a (PStr (process_task (kind (h a)))) a) inp")
  case (Inl e)
  then have "isl (fst (process E h a inp))"
    by (simp add: process_eq except_handler_def split: sum.splits pyexn.splits)
  with assms show ?thesis by simp
next
  case (Inr p)
  obtain r' self' where p: "p = (r', self')" by (cases p)
  have "BaseAgent.state self' = BaseAgent.state (task_set h a (PStr (process_task (kind (h a)))) a)"
    using process_try_self(1) Inr p by blast
  then show ?thesis
    using Inr p by (simp add: process_eq confidence_of_def task_set_def)
qed

lemma process_Inl_cause:
  assumes "fst (process E h a inp) = Inl err"
  shows "\<exists>e. process_try E (task_set h a (PStr (process_task (kind (h a)))) a) inp = Inl e
           \<and> process E h a inp =
               except_handler (float_literal 0.8) (process_failed (kind (h a))) e a
                 (task_set h a (PStr (process_task (kind (h a)))))"
  using assms
  by (cases "process_try E (task_set h a (PStr (process_task (kind (h a)))) a) inp")
     (auto simp: process_eq)

lemma process_Inl:
  assumes "fst (process E h a inp) = Inl err" and "confidence_of h a = PFloat c"
  shows "\<exists>e. process_try E (task_set h a (PStr (process_task (kind (h a)))) a) inp = Inl e
           \<and> err = PyExn Exception (process_failed (kind (h a)) @ str e) (Some e)"
    and "confidence_of (snd (process E h a inp)) a = PFloat (float_mul c (float_literal 0.8))"
proof -
  let ?h1 = "task_set h a (PStr (process_task (kind (h a))))"
  have c1: "confidence_of ?h1 a = PFloat c" using assms(2) by (simp add: task_set_simps)
  obtain e where e: "process_try E (?h1 a) inp = Inl e"
    using process_Inl_cause [OF assms(1)] by blast
  have p: "process E h a inp =
      (Inl (PyExn Exception (process_failed (kind (h a)) @ str e) (Some e)),
       ?h1(a := (?h1 a)\<lparr>BaseAgent.state := (BaseAgent.state (?h1 a))
              \<lparr>confidence := PFloat (float_mul c (float_literal 0.8))\<rparr>\<rparr>))"
    by (simp add: process_eq e except_handler_float [OF c1])
  show "\<exists>e. process_try E (?h1 a) inp = Inl e
           \<and> err = PyExn Exception (process_failed (kind (h a)) @ str e) (Some e)"
    using e p assms(1) by simp
  show "confidence_of (snd (process E h a inp)) a = PFloat (float_mul c (float_literal 0.8))"
    by (simp add: p confidence_of_def)
qed

lemma process_Inl_not_float:
  assumes "fst (process E h a inp) = Inl err" and "\<not> is_float (confidence_of h a)"
  shows "\<exists>e m. process_try E (task_set h a (PStr (process_task (kind (h a)))) a) inp = Inl e
           \<and> err = PyExn TypeError m (Some e)"
    and "confidence_of (snd (process E h a inp)) b = confidence_of h b"
proof -
  let ?h1 = "task_set h a (PStr (process_task (kind (h a))))"
  have c1: "\<not> is_float (confidence_of ?h1 a)" using assms(2) by (simp add: task_set_simps)
  obtain e where e: "process_try E (?h1 a) inp = Inl e"
    and p: "process E h a inp =
      except_handler (float_literal 0.8) (process_failed (kind (h a))) e a ?h1"
    using process_Inl_cause [OF assms(1)] by blast
  obtain m where m: "except_handler (float_literal 0.8) (process_failed (kind (h a))) e a ?h1 =
      (Inl (PyExn TypeError m (Some e)), ?h1)"
    using except_handler_not_float [OF c1] by blast
  show "\<exists>e m. process_try E (?h1 a) inp = Inl e \<and> err = PyExn TypeError m (Some e)"
    using e p m assms(1) by auto
  show "confidence_of (snd (process E h a inp)) b = confidence_of h b"
    unfolding p m by (simp add: task_set_simps)
qed

subsection \<open>Confidence does not grow\<close>

lemma penalty_factor:
  "0 \<le> float_literal 0.8" "float_literal 0.8 \<le> 1" "0 \<le> float_literal 0.9" "float_literal 0.9 \<le> 1"
  by (simp_all add: float_literal_unit)

lemma decayed_refl:
  "\<forall>b. \<exists>c. 0 \<le> c \<and> is_double c \<and> confidence_of h b = PFloat c \<Longrightarrow> decayed h h"
  unfolding decayed_def by (metis order_refl)

lemma decayed_trans: "decayed h h1 \<Longrightarrow> decayed h1 h2 \<Longrightarrow> decayed h h2"
  unfolding decayed_def
proof (intro allI)
  fix b
  assume a: "\<forall>b. \<exists>c c'. confidence_of h b = PFloat c \<and> confidence_of h1 b = PFloat c'
                \<and> is_double c' \<and> 0 \<le> c' \<and> c' \<le> c"
    and b: "\<forall>b. \<exists>c c'. confidence_of h1 b = PFloat c \<and> confidence_of h2 b = PFloat c'
                \<and> is_double c' \<and> 0 \<le> c' \<and> c' \<le> c"
  from a obtain c c' where 1: "confidence_of h b = PFloat c" "confidence_of h1 b = PFloat c'" "c' \<le> c"
    by blast
  from b obtain d d' where 2: "confidence_of h1 b = PFloat d" "confidence_of h2 b = PFloat d'"
    "is_double d'" "0 \<le> d'" "d' \<le> d"
    by blast
  from 1 2 have "d = c'" by simp
  with 1 2 show "\<exists>c c'. confidence_of h b = PFloat c \<and> confidence_of h2 b = PFloat c'
                \<and> is_double c' \<and> 0 \<le> c' \<and> c' \<le> c"
    by auto
qed

lemma decayed_nonneg:
  "decayed h h' \<Longrightarrow> \<forall>b. \<exists>c. 0 \<le> c \<and> is_double c \<and> confidence_of h' b = PFloat c"
  unfolding decayed_def by metis

lemma decayed_task_set:
  "\<forall>b. \<exists>c. 0 \<le> c \<and> is_double c \<and> confidence_of h b = PFloat c \<Longrightarrow> decayed h (task_set h a v)"
  unfolding decayed_def by (simp add: task_set_simps) (metis order_refl)

lemma process_decayed:
  assumes nn: "\<forall>b. \<exists>c. 0 \<le> c \<and> is_double c \<and> confidence_of h b = PFloat c"
  shows "decayed h (snd (process E h a inp))"
  unfolding decayed_def
proof
  fix b
  obtain c where c: "0 \<le> c" "is_double c" "confidence_of h b = PFloat c" using nn by blast
  show "\<exists>c c'. confidence_of h b = PFloat c \<and>
          confidence_of (snd (process E h a inp)) b = PFloat c' \<and> is_double c' \<and> 0 \<le> c' \<and> c' \<le> c"
  proof (cases "fst (process E h a inp)")
    case (Inr r)
    then show ?thesis using c process_Inr [of E h a inp r b] by auto
  next
    case (Inl err)
    show ?thesis
    proof (cases "b = a")
      case True
      then have "confidence_of (snd (process E h a inp)) b = PFloat (float_mul c (float_literal 0.8))"
        using process_Inl(2) [OF Inl, of c] c by simp
      moreover note float_mul_double [OF c(2,1) penalty_factor(1,2)]
      ultimately show ?thesis using c True by blast
    next
      case False
      then show ?thesis using c by (simp add: confidence_of_def process_frame)
    qed
  qed
qed

lemma except_handler_decayed:
  assumes nn: "\<forall>b. \<exists>c. 0 \<le> c \<and> is_double c \<and> confidence_of h b = PFloat c"
    and f: "0 \<le> f" "f \<le> 1"
  shows "decayed h (snd (except_handler f l e a h))"
  unfolding decayed_def
proof
  fix b
  obtain c where c: "0 \<le> c" "is_double c" "confidence_of h b = PFloat c" using nn by blast
  obtain ca where ca: "0 \<le> ca" "is_double ca" "confidence_of h a = PFloat ca" using nn by blast
  note m = float_mul_double [OF ca(2,1) f]
  show "\<exists>c c'. confidence_of h b = PFloat c \<and>
          confidence_of (snd (except_handler f l e a h)) b = PFloat c' \<and> is_double c' \<and> 0 \<le> c' \<and> c' \<le> c"
  proof (cases "b = a")
    case True
    then show ?thesis
      using m c ca by (simp add: except_handler_float [OF ca(3)] confidence_of_def)
  next
    case False
    then show ?thesis
      using c by (simp add: except_handler_float [OF ca(3)] confidence_of_def)
  qed
qed

lemma label_set_eq:
  "label_set E h x y =
     (None, task_set h x (PStr (collaborate_task (kind (h x)) @
                                AgentPersonality.name (personality (h y)))))"
  unfolding label_set_def update_state_current_task
  by (simp add: task_set_def)

lemma collaborate_eq:
  "collaborate E h x y ctx =
     (case process E (task_set h x (PStr (collaborate_task (kind (h x)) @
                                AgentPersonality.name (personality (h y))))) y ctx of
        (Inl e, h2) \<Rightarrow> except_handler (float_literal 0.9) (collaborate_failed (kind (h x))) e x h2
      | (Inr other, h2) \<Rightarrow>
          (case collaborate_try E (h2 x) (h2 y) ctx other of
             Inl e \<Rightarrow> except_handler (float_literal 0.9) (collaborate_failed (kind (h x))) e x h2
           | Inr payload \<Rightarrow> (Inr payload, h2)))"
proof -
  let ?h1 = "task_set h x (PStr (collaborate_task (kind (h x)) @
                                AgentPersonality.name (personality (h y))))"
  have k: "kind (snd (process E ?h1 y ctx) x) = kind (h x)"
    by (simp add: process_kind task_set_simps)
  obtain r h2 where p: "process E ?h1 y ctx = (r, h2)" by (cases "process E ?h1 y ctx")
  with k have k2: "kind (h2 x) = kind (h x)" by simp
  show ?thesis
    by (simp add: collaborate_def label_set_eq p k2 split: sum.splits)
qed

lemma collaborate_decayed:
  assumes nn: "\<forall>b. \<exists>c. 0 \<le> c \<and> is_double c \<and> confidence_of h b = PFloat c"
  shows "decayed h (snd (collaborate E h x y ctx))"
proof -
  let ?h1 = "task_set h x (PStr (collaborate_task (kind (h x)) @
                                AgentPersonality.name (personality (h y))))"
  let ?h2 = "snd (process E ?h1 y ctx)"
  have d1: "decayed h ?h1" using nn by (rule decayed_task_set)
  have d2: "decayed ?h1 ?h2" using decayed_nonneg [OF d1] by (rule process_decayed)
  have d12: "decayed h ?h2" using d1 d2 by (rule decayed_trans)
  have d3: "decayed ?h2 (snd (except_handler (float_literal 0.9) l e x ?h2))" for l e
    using decayed_nonneg [OF d12] penalty_factor(3,4) by (rule except_handler_decayed)
  have "snd (collaborate E h x y ctx) = ?h2
        \<or> (\<exists>l e. snd (collaborate E h x y ctx) = snd (except_handler (float_literal 0.9) l e x ?h2))"
    by (auto simp: collaborate_eq split: prod.splits sum.splits)
  then show ?thesis
  proof
    assume "snd (collaborate E h x y ctx) = ?h2"
    then show ?thesis using d12 by simp
  next
    assume "\<exists>l e. snd (collaborate E h x y ctx) = snd (except_handler (float_literal 0.9) l e x ?h2)"
    then obtain l e where
      "snd (collaborate E h x y ctx) = snd (except_handler (float_literal 0.9) l e x ?h2)"
      by blast
    then show ?thesis using decayed_trans [OF d12 d3 [of l e]] by simp
  qed
qed

lemma collaborate_other_Inl:
  assumes "x \<noteq> y" and "confidence_of h x = PFloat c" and "fst (collaborate E h x y ctx) = Inl err"
  shows "confidence_of (snd (collaborate E h x y ctx)) x = PFloat (float_mul c (float_literal 0.9))"
proof -
  let ?h1 = "task_set h x (PStr (collaborate_task (kind (h x)) @
                                AgentPersonality.name (personality (h y))))"
  let ?h2 = "snd (process E ?h1 y ctx)"
  have c2: "confidence_of ?h2 x = PFloat c"
    using assms(1,2) by (simp add: confidence_of_def process_frame task_set_def)
  obtain e where e: "collaborate E h x y ctx =
      except_handler (float_literal 0.9) (collaborate_failed (kind (h x))) e x ?h2"
    using assms(3) by (auto simp: collaborate_eq split: prod.splits sum.splits)
  show ?thesis
    by (simp add: e except_handler_float [OF c2] confidence_of_def)
qed

subsection \<open>Sequences of calls\<close>

lemma run_calls_Cons:
  "fst (run_calls h ((E, c) # cs)) = fst (run_call E h c) # fst (run_calls (snd (run_call E h c)) cs)"
  "snd (run_calls h ((E, c) # cs)) = snd (run_calls (snd (run_call E h c)) cs)"
  by (simp_all add: split_beta Let_def)

lemma run_call_decayed:
  "\<forall>b. \<exists>c. 0 \<le> c \<and> is_double c \<and> confidence_of h b = PFloat c \<Longrightarrow>
   decayed h (snd (run_call E h c))"
  by (cases c) (simp_all add: process_decayed collaborate_decayed)

lemma run_calls_decayed:
  "\<forall>b. \<exists>c. 0 \<le> c \<and> is_double c \<and> confidence_of h b = PFloat c \<Longrightarrow>
   decayed h (snd (run_calls h cs))"
proof (induction cs arbitrary: h)
  case Nil
  then show ?case by (simp add: decayed_refl)
next
  case (Cons p cs)
  obtain E c where p: "p = (E, c)" by (cases p)
  have d1: "decayed h (snd (run_call E h c))" using Cons.prems by (rule run_call_decayed)
  have d2: "decayed (snd (run_call E h c)) (snd (run_calls (snd (run_call E h c)) cs))"
    using decayed_nonneg [OF d1] by (rule Cons.IH)
  show ?case
    unfolding p run_calls_Cons using d1 d2 by (rule decayed_trans)
qed

lemma run_calls_process:
  assumes "confidence_of h a = PFloat c"
    and "\<forall>(E, cl) \<in> set cs. is_process_of a cl"
    and "\<forall>r \<in> set (fst (run_calls h cs)). isl r"
  shows "confidence_of (snd (run_calls h cs)) a = PFloat ((process_penalty ^^ length cs) c)"
  using assms
proof (induction cs arbitrary: h c)
  case Nil
  then show ?case by simp
next
  case (Cons p cs)
  obtain E cl where p: "p = (E, cl)" by (cases p)
  from Cons.prems(2) p obtain inp where cl: "cl = Process a inp"
    by (cases cl) (auto simp: is_process_of_def)
  from Cons.prems(3) have "isl (fst (process E h a inp))"
    unfolding p cl run_calls_Cons by simp
  then obtain err where err: "fst (process E h a inp) = Inl err"
    by (cases "fst (process E h a inp)") auto
  have c1: "confidence_of (snd (process E h a inp)) a = PFloat (process_penalty c)"
    unfolding process_penalty_def using process_Inl(2) [OF err Cons.prems(1)] .
  have "confidence_of (snd (run_calls (snd (process E h a inp)) cs)) a =
          PFloat ((process_penalty ^^ length cs) (process_penalty c))"
  proof (rule Cons.IH [OF c1])
    show "\<forall>(E, cl) \<in> set cs. is_process_of a cl" using Cons.prems(2) by simp
    show "\<forall>r \<in> set (fst (run_calls (snd (process E h a inp)) cs)). isl r"
      using Cons.prems(3) unfolding p cl run_calls_Cons by simp
  qed
  then show ?case
    unfolding p cl run_calls_Cons by (simp add: funpow_swap1)
qed

lemma run_calls_collaborate:
  assumes "confidence_of h a = PFloat c"
    and "\<forall>(E, cl) \<in> set cs. is_collaborate_of a cl"
    and "\<forall>r \<in> set (fst (run_calls h cs)). isl r"
  shows "confidence_of (snd (run_calls h cs)) a = PFloat ((collaborate_penalty ^^ length cs) c)"
  using assms
proof (induction cs arbitrary: h c)
  case Nil
  then show ?case by simp
next
  case (Cons p cs)
  obtain E cl where p: "p = (E, cl)" by (cases p)
  from Cons.prems(2) p obtain b ctx where cl: "cl = Collaborate a b ctx" and ab: "a \<noteq> b"
    by (cases cl) (auto simp: is_collaborate_of_def)
  from Cons.prems(3) have "isl (fst (collaborate E h a b ctx))"
    unfolding p cl run_calls_Cons by simp
  then obtain err where err: "fst (collaborate E h a b ctx) = Inl err"
    by (cases "fst (collaborate E h a b ctx)") auto
  have c1: "confidence_of (snd (collaborate E h a b ctx)) a = PFloat (collaborate_penalty c)"
    unfolding collaborate_penalty_def using collaborate_other_Inl [OF ab Cons.prems(1) err] .
  have "confidence_of (snd (run_calls (snd (collaborate E h a b ctx)) cs)) a =
          PFloat ((collaborate_penalty ^^ length cs) (collaborate_penalty c))"
  proof (rule Cons.IH [OF c1])
    show "\<forall>(E, cl) \<in> set cs. is_collaborate_of a cl" using Cons.prems(2) by simp
    show "\<forall>r \<in> set (fst (run_calls (snd (collaborate E h a b ctx)) cs)). isl r"
      using Cons.prems(3) unfolding p cl run_calls_Cons by simp
  qed
  then show ?case
    unfolding p cl run_calls_Cons by (simp add: funpow_swap1)
qed

lemma process_penalty_power:
  "\<bar>(process_penalty ^^ N) 1 - 0.8 ^ N\<bar> \<le> 5 / 2 ^ 53"
proof -
  have "process_penalty = (\<lambda>c. float_mul c (float_literal 0.8))"
    by (rule ext) (simp add: process_penalty_def)
  then show ?thesis
    using float_mul_literal_power [of "0.8" "5 / 2 ^ 53" N] by simp
qed

lemma collaborate_penalty_power:
  "\<bar>(collaborate_penalty ^^ N) 1 - 0.9 ^ N\<bar> \<le> 10 / 2 ^ 53"
proof -
  have "collaborate_penalty = (\<lambda>c. float_mul c (float_literal 0.9))"
    by (rule ext) (simp add: collaborate_penalty_def)
  then show ?thesis
    using float_mul_literal_power [of "0.9" "10 / 2 ^ 53" N] by simp
qed

text \<open>
  C1, as the code has it. A failing \<^verbatim>\<open>process\<close> replaces the confidence \<open>c\<close> by the float
  product \<^verbatim>\<open>c * 0.8\<close>, and a failing \<^verbatim>\<open>collaborate\<close> with a peer other than the agent
  itself by \<^verbatim>\<open>c * 0.9\<close>: the exact product with the double nearest to 0.8 or 0.9, rounded
  to the nearest double. From a confidence of 1.0, \<open>N\<close> failing calls of \<^verbatim>\<open>process\<close> in a
  row leave the result of \<open>N\<close> such multiplications, which is within \<open>5 / 2 ^ 53\<close> of
  \<open>0.8 ^ N\<close>, and \<open>N\<close> failing calls of \<^verbatim>\<open>collaborate\<close> leave a float within
  \<open>10 / 2 ^ 53\<close> of \<open>0.9 ^ N\<close>. No list of \<^verbatim>\<open>process\<close> and \<^verbatim>\<open>collaborate\<close> calls, by any
  agents and with any peers, raises the confidence of any agent, when every confidence
  was a float that is not negative.
\<close>

theorem confidence_decay:
  "(confidence_of h a = PFloat 1 \<and> (\<forall>(E, c) \<in> set cs. is_process_of a c)
      \<and> (\<forall>r \<in> set (fst (run_calls h cs)). isl r)
      \<longrightarrow> confidence_of (snd (run_calls h cs)) a = PFloat ((process_penalty ^^ length cs) 1))
   \<and> \<bar>(process_penalty ^^ N) 1 - 0.8 ^ N\<bar> \<le> 5 / 2 ^ 53
   \<and> (confidence_of h a = PFloat 1 \<and> (\<forall>(E, c) \<in> set cs. is_collaborate_of a c)
      \<and> (\<forall>r \<in> set (fst (run_calls h cs)). isl r)
      \<longrightarrow> confidence_of (snd (run_calls h cs)) a = PFloat ((collaborate_penalty ^^ length cs) 1))
   \<and> \<bar>(collaborate_penalty ^^ N) 1 - 0.9 ^ N\<bar> \<le> 10 / 2 ^ 53
   \<and> ((\<forall>b. \<exists>x. 0 \<le> x \<and> is_double x \<and> confidence_of h b = PFloat x)
      \<longrightarrow> (\<forall>b. float_le (confidence_of (snd (run_calls h cs)) b) (confidence_of h b)))"
proof (intro conjI impI)
  assume "confidence_of h a = PFloat 1 \<and> (\<forall>(E, c) \<in> set cs. is_process_of a c)
      \<and> (\<forall>r \<in> set (fst (run_calls h cs)). isl r)"
  then show "confidence_of (snd (run_calls h cs)) a = PFloat ((process_penalty ^^ length cs) 1)"
    using run_calls_process [of h a 1 cs] by simp
next
  show "\<bar>(process_penalty ^^ N) 1 - 0.8 ^ N\<bar> \<le> 5 / 2 ^ 53" by (rule process_penalty_power)
next
  assume "confidence_of h a = PFloat 1 \<and> (\<forall>(E, c) \<in> set cs. is_collaborate_of a c)
      \<and> (\<forall>r \<in> set (fst (run_calls h cs)). isl r)"
  then show "confidence_of (snd (run_calls h cs)) a = PFloat ((collaborate_penalty ^^ length cs) 1)"
    using run_calls_collaborate [of h a 1 cs] by simp
next
  show "\<bar>(collaborate_penalty ^^ N) 1 - 0.9 ^ N\<bar> \<le> 10 / 2 ^ 53"
    by (rule collaborate_penalty_power)
next
  assume "\<forall>b. \<exists>x. 0 \<le> x \<and> is_double x \<and> confidence_of h b = PFloat x"
  then have d: "decayed h (snd (run_calls h cs))" by (rule run_calls_decayed)
  show "\<forall>b. float_le (confidence_of (snd (run_calls h cs)) b) (confidence_of h b)"
  proof
    fix b
    from d obtain c c' where "confidence_of h b = PFloat c"
      "confidence_of (snd (run_calls h cs)) b = PFloat c'" "c' \<le> c"
      unfolding decayed_def by blast
    then show "float_le (confidence_of (snd (run_calls h cs)) b) (confidence_of h b)" by simp
  qed
qed

subsection \<open>The Strategist without a knowledge base\<close>

lemma process_knowledge_base:
  "knowledge_base (snd (process E h a inp) b) = knowledge_base (h b)"
proof -
  have t: "knowledge_base self' = knowledge_base self"
    if "process_try E self inp = Inr (r, self')" for self r self'
    using that analyst_process_try_self [of E self inp r self']
      strategist_process_try_self [of E self inp r self']
    by (auto simp: process_try_def bind_res_Inr split: if_splits)
  show ?thesis
    by (auto simp: process_eq except_handler_def task_set_def dest: t
        split: sum.splits prod.splits pyexn.splits)
qed

lemma strategist_process_no_knowledge_base:
  assumes "kind (h a) = Strategist" and "knowledge_base (h a) = None"
    and "confidence_of h a = PFloat c"
  shows "fst (process E h a inp) =
           Inl (PyExn Exception ''Strategic analysis failed: Knowledge base not initialized''
                  (Some (PyExn ValueError ''Knowledge base not initialized'' None)))"
    and "confidence_of (snd (process E h a inp)) a = PFloat (float_mul c (float_literal 0.8))"
proof -
  let ?h1 = "task_set h a (PStr (process_task (kind (h a))))"
  have k: "kind (?h1 a) = Strategist" "knowledge_base (?h1 a) = None"
    using assms by (simp_all add: task_set_def)
  have t: "process_try E (?h1 a) inp = Inl (PyExn ValueError ''Knowledge base not initialized'' None)"
    by (simp add: process_try_def k strategist_process_try_def strategist_analyze_context_def
        access_knowledge_base_def bind_res_def)
  have c1: "confidence_of ?h1 a = PFloat c" using assms(3) by (simp add: task_set_simps)
  have p: "process E h a inp =
      except_handler (float_literal 0.8) (process_failed (kind (h a)))
        (PyExn ValueError ''Knowledge base not initialized'' None) a ?h1"
    unfolding process_eq t sum.case by (rule refl)
  show "fst (process E h a inp) =
           Inl (PyExn Exception ''Strategic analysis failed: Knowledge base not initialized''
                  (Some (PyExn ValueError ''Knowledge base not initialized'' None)))"
    unfolding p except_handler_float [OF c1] by (simp add: assms(1))
  show "confidence_of (snd (process E h a inp)) a = PFloat (float_mul c (float_literal 0.8))"
    unfolding p except_handler_float [OF c1] by (simp add: confidence_of_def)
qed

lemma example_agents_simps:
  "kind (example_agents a) = (if a = 1 then Strategist else Analyst)"
  "knowledge_base (example_agents a) = None"
  "confidence_of example_agents a = PFloat 1"
  "strategic_plans (example_agents a) = []"
  "current_analysis (example_agents a) = PNone"
  by (simp_all add: example_agents_def BaseAgent_init_def confidence_of_def AgentState_init_def)


lemma source_env_simps:
  "method source_env = source_methods" "now source_env = ''2024-01-01T00:00:00''"
  "state_attrs source_env = [''dict'']"
  by (simp_all add: source_env_def)

lemma analyst_process_try_source:
  assumes "kind self = Analyst"
  shows "\<exists>r. analyst_process_try source_env self inp =
           Inr (r, self\<lparr>analysis_history := analysis_history self @ [r], current_analysis := r\<rparr>)"
  by (simp add: analyst_process_try_def analyst_prepare_data_def
      analyst_perform_statistical_analysis_def analyst_identify_patterns_def
      analyst_analyze_trends_def analyst_generate_insights_def
      source_env_simps source_methods_def assms analyst_methods_def
      bind_res_def reraise_def Let_def)

lemma task_set_knowledge_base: "knowledge_base (task_set h a v b) = knowledge_base (h b)"
  by (simp add: task_set_def)

lemma except_handler_knowledge_base:
  "knowledge_base (snd (except_handler f l e a h) b) = knowledge_base (h b)"
  by (simp add: except_handler_def split: sum.splits pyexn.splits)

lemma collaborate_snd_cases:
  "snd (collaborate E h x y ctx) =
      snd (process E (task_set h x (PStr (collaborate_task (kind (h x)) @
             AgentPersonality.name (personality (h y))))) y ctx)
   \<or> (\<exists>l e. snd (collaborate E h x y ctx) =
         snd (except_handler (float_literal 0.9) l e x
           (snd (process E (task_set h x (PStr (collaborate_task (kind (h x)) @
             AgentPersonality.name (personality (h y))))) y ctx))))"
  by (auto simp: collaborate_eq split: prod.splits sum.splits)

lemma collaborate_kind:
  "kind (snd (collaborate E h x y ctx) b) = kind (h b)"
  "personality (snd (collaborate E h x y ctx) b) = personality (h b)"
  "knowledge_base (snd (collaborate E h x y ctx) b) = knowledge_base (h b)"
  using collaborate_snd_cases [of E h x y ctx]
  by (auto simp: process_kind except_handler_kind task_set_simps process_knowledge_base
      task_set_knowledge_base except_handler_knowledge_base)

lemma collaborate_peer_fails:
  assumes "fst (process E (task_set h x (PStr (collaborate_task (kind (h x)) @
             AgentPersonality.name (personality (h y))))) y ctx) = Inl e"
    and "confidence_of (snd (process E (task_set h x (PStr (collaborate_task (kind (h x)) @
             AgentPersonality.name (personality (h y))))) y ctx)) x = PFloat c"
  shows "fst (collaborate E h x y ctx) =
           Inl (PyExn Exception (collaborate_failed (kind (h x)) @ str e) (Some e))"
    and "confidence_of (snd (collaborate E h x y ctx)) x = PFloat (float_mul c (float_literal 0.9))"
proof -
  let ?p = "process E (task_set h x (PStr (collaborate_task (kind (h x)) @
             AgentPersonality.name (personality (h y))))) y ctx"
  have p: "?p = (Inl e, snd ?p)" using assms(1) by (metis prod.collapse)
  have c: "collaborate E h x y ctx =
      except_handler (float_literal 0.9) (collaborate_failed (kind (h x))) e x (snd ?p)"
    by (subst collaborate_eq, subst p) simp
  show "fst (collaborate E h x y ctx) =
           Inl (PyExn Exception (collaborate_failed (kind (h x)) @ str e) (Some e))"
    unfolding c except_handler_float [OF assms(2)] by simp
  show "confidence_of (snd (collaborate E h x y ctx)) x = PFloat (float_mul c (float_literal 0.9))"
    unfolding c except_handler_float [OF assms(2)] by (simp add: confidence_of_def)
qed

subsection \<open>An agent that collaborates with itself\<close>

text \<open>The Strategist of the example collaborates with itself.\<close>

lemma strategist_self_collaboration:
  "fst (collaborate source_env example_agents 1 1 (PDict [])) =
     Inl (PyExn Exception
       ''Strategic collaboration failed: Strategic analysis failed: Knowledge base not initialized''
       (Some (PyExn Exception ''Strategic analysis failed: Knowledge base not initialized''
          (Some (PyExn ValueError ''Knowledge base not initialized'' None)))))"
  "confidence_of (snd (collaborate source_env example_agents 1 1 (PDict []))) 1 =
     PFloat (6485183463413515 / 2 ^ 53)"
proof -
  let ?h1 = "task_set example_agents 1 (PStr (collaborate_task (kind (example_agents 1)) @
             AgentPersonality.name (personality (example_agents 1))))"
  have k: "kind (?h1 1) = Strategist" "knowledge_base (?h1 1) = None" "confidence_of ?h1 1 = PFloat 1"
    by (simp_all add: task_set_simps task_set_knowledge_base example_agents_simps)
  note p = strategist_process_no_knowledge_base [OF k, of source_env "PDict []"]
  have p2: "confidence_of (snd (process source_env ?h1 1 (PDict []))) 1 =
      PFloat (7205759403792794 / 2 ^ 53)"
    using p(2) unfolding float_mul_1_0_8 .
  show "fst (collaborate source_env example_agents 1 1 (PDict [])) =
     Inl (PyExn Exception
       ''Strategic collaboration failed: Strategic analysis failed: Knowledge base not initialized''
       (Some (PyExn Exception ''Strategic analysis failed: Knowledge base not initialized''
          (Some (PyExn ValueError ''Knowledge base not initialized'' None)))))"
    unfolding collaborate_peer_fails(1) [OF p(1) p2] by (simp add: example_agents_simps)
  show "confidence_of (snd (collaborate source_env example_agents 1 1 (PDict []))) 1 =
     PFloat (6485183463413515 / 2 ^ 53)"
    unfolding collaborate_peer_fails(2) [OF p(1) p2] float_mul_0_8_0_9 by (rule refl)
qed

lemma strategist_call_fails:
  assumes k: "kind (h a) = Strategist" "knowledge_base (h a) = None"
    and nn: "\<forall>b. \<exists>c. 0 \<le> c \<and> is_double c \<and> confidence_of h b = PFloat c"
    and cl: "(\<exists>inp. cl = Process a inp) \<or> (\<exists>x ctx. cl = Collaborate x a ctx)"
  shows "isl (fst (run_call E h cl))"
  using cl
proof
  assume "\<exists>inp. cl = Process a inp"
  then obtain inp where c: "cl = Process a inp" by blast
  obtain c' where "confidence_of h a = PFloat c'" using nn by blast
  then show ?thesis
    using strategist_process_no_knowledge_base(1) [where h = h and a = a and c = c', OF k]
    by (simp add: c)
next
  assume "\<exists>x ctx. cl = Collaborate x a ctx"
  then obtain x ctx where c: "cl = Collaborate x a ctx" by blast
  let ?h1 = "task_set h x (PStr (collaborate_task (kind (h x)) @
             AgentPersonality.name (personality (h a))))"
  have k1: "kind (?h1 a) = Strategist" "knowledge_base (?h1 a) = None"
    using k by (simp_all add: task_set_simps task_set_knowledge_base)
  have nn1: "\<forall>b. \<exists>c. 0 \<le> c \<and> is_double c \<and> confidence_of ?h1 b = PFloat c"
    using nn by (simp add: task_set_simps)
  obtain c1 where c1: "confidence_of ?h1 a = PFloat c1" using nn1 by blast
  note p = strategist_process_no_knowledge_base(1)
    [where h = ?h1 and a = a and c = c1 and E = E and inp = ctx, OF k1 c1]
  obtain c2 where c2: "confidence_of (snd (process E ?h1 a ctx)) x = PFloat c2"
    using decayed_nonneg [OF process_decayed [OF nn1, of E a ctx]] by blast
  show ?thesis
    using collaborate_peer_fails(1) [OF p c2] by (simp add: c)
qed

lemma run_call_kind:
  "kind (snd (run_call E h cl) b) = kind (h b)"
  "knowledge_base (snd (run_call E h cl) b) = knowledge_base (h b)"
  by (cases cl; simp add: process_kind process_knowledge_base collaborate_kind)+

lemma run_calls_strategist_fail:
  assumes "kind (h a) = Strategist" "knowledge_base (h a) = None"
    and "\<forall>b. \<exists>c. 0 \<le> c \<and> is_double c \<and> confidence_of h b = PFloat c"
    and "\<forall>(E, cl) \<in> set cs. (\<exists>inp. cl = Process a inp) \<or> (\<exists>x ctx. cl = Collaborate x a ctx)"
  shows "\<forall>r \<in> set (fst (run_calls h cs)). isl r"
  using assms
proof (induction cs arbitrary: h)
  case Nil
  then show ?case by simp
next
  case (Cons p cs)
  obtain E cl where p: "p = (E, cl)" by (cases p)
  have cl: "(\<exists>inp. cl = Process a inp) \<or> (\<exists>x ctx. cl = Collaborate x a ctx)"
    using Cons.prems(4) p by simp
  have f: "isl (fst (run_call E h cl))"
    using strategist_call_fails [OF Cons.prems(1,2,3) cl] .
  have "\<forall>r \<in> set (fst (run_calls (snd (run_call E h cl)) cs)). isl r"
  proof (rule Cons.IH)
    show "kind (snd (run_call E h cl) a) = Strategist" using Cons.prems(1) by (simp add: run_call_kind)
    show "knowledge_base (snd (run_call E h cl) a) = None"
      using Cons.prems(2) by (simp add: run_call_kind)
    show "\<forall>b. \<exists>c. 0 \<le> c \<and> is_double c \<and> confidence_of (snd (run_call E h cl)) b = PFloat c"
      using decayed_nonneg [OF run_call_decayed [OF Cons.prems(3)]] .
    show "\<forall>(E, cl) \<in> set cs. (\<exists>inp. cl = Process a inp) \<or> (\<exists>x ctx. cl = Collaborate x a ctx)"
      using Cons.prems(4) by simp
  qed
  with f show ?case unfolding p run_calls_Cons by simp
qed

lemma example_agents_doubles:
  "\<forall>b. \<exists>c. 0 \<le> c \<and> is_double c \<and> confidence_of example_agents b = PFloat c"
  using is_double_1 by (auto simp: example_agents_simps)

lemma process_penalty_2: "(process_penalty ^^ Suc (Suc 0)) 1 = 5764607523034236 / 2 ^ 53"
  unfolding funpow.simps o_apply id_apply process_penalty_def float_mul_1_0_8 float_mul_0_8_0_8
  by (rule refl)

lemma process_penalty_4:
  "(process_penalty ^^ Suc (Suc (Suc (Suc 0)))) 1 = 7378697629483823 / 2 ^ 54"
  unfolding funpow.simps o_apply id_apply process_penalty_def float_mul_1_0_8 float_mul_0_8_0_8
    float_mul_0_64_0_8 float_mul_0_512_0_8
  by (rule refl)

lemma collaborate_penalty_2: "(collaborate_penalty ^^ Suc (Suc 0)) 1 = 7295831396340204 / 2 ^ 53"
  unfolding funpow.simps o_apply id_apply collaborate_penalty_def float_mul_1_0_9 float_mul_0_9_0_9
  by (rule refl)

text \<open>
  The Strategist of the example has no knowledge base, so its \<^verbatim>\<open>process\<close> fails, and so
  does the \<^verbatim>\<open>collaborate\<close> of the Analyst with it. Two calls of each: the Strategist is
  left with the float \<^verbatim>\<open>0.6400000000000001\<close>, the Analyst with the float \<^verbatim>\<open>0.81\<close>.
\<close>

theorem confidence_decay_witness:
  "list_all isl (fst (run_calls example_agents
        [(source_env, Process 1 (PDict [])), (source_env, Process 1 (PDict []))]))
   \<and> confidence_of (snd (run_calls example_agents
        [(source_env, Process 1 (PDict [])), (source_env, Process 1 (PDict []))])) 1
       = PFloat (5764607523034236 / 2 ^ 53)
   \<and> \<bar>(process_penalty ^^ 2) 1 - 0.8 ^ 2\<bar> \<le> 5 / 2 ^ 53
   \<and> list_all isl (fst (run_calls example_agents
        [(source_env, Collaborate 0 1 (PDict [])), (source_env, Collaborate 0 1 (PDict []))]))
   \<and> confidence_of (snd (run_calls example_agents
        [(source_env, Collaborate 0 1 (PDict [])), (source_env, Collaborate 0 1 (PDict []))])) 0
       = PFloat (7295831396340204 / 2 ^ 53)
   \<and> \<bar>(collaborate_penalty ^^ 2) 1 - 0.9 ^ 2\<bar> \<le> 10 / 2 ^ 53
   \<and> float_le
        (confidence_of (snd (run_calls example_agents
          [(source_env, Collaborate 0 1 (PDict [])), (source_env, Collaborate 0 1 (PDict []))])) 1)
        (confidence_of example_agents 1)"
proof -
  let ?ps = "[(source_env, Process 1 (PDict [])), (source_env, Process 1 (PDict []))]"
  let ?cs = "[(source_env, Collaborate 0 1 (PDict [])), (source_env, Collaborate 0 1 (PDict []))]"
  have k: "kind (example_agents 1) = Strategist" "knowledge_base (example_agents 1) = None"
    by (simp_all add: example_agents_simps)
  note nn = example_agents_doubles
  have c1: "confidence_of example_agents a = PFloat 1" for a
    by (simp add: example_agents_simps)
  have fp: "\<forall>r \<in> set (fst (run_calls example_agents ?ps)). isl r"
    by (rule run_calls_strategist_fail [OF k nn]) simp
  have fc: "\<forall>r \<in> set (fst (run_calls example_agents ?cs)). isl r"
    by (rule run_calls_strategist_fail [OF k nn]) simp
  have ip: "\<forall>(E, c) \<in> set ?ps. is_process_of 1 c" by (simp add: is_process_of_def)
  have ic: "\<forall>(E, c) \<in> set ?cs. is_collaborate_of 0 c" by (simp add: is_collaborate_of_def)
  note t1 = confidence_decay [of example_agents 1 ?ps 2]
  note t0 = confidence_decay [of example_agents 0 ?cs 2]
  have l: "length ?ps = Suc (Suc 0)" "length ?cs = Suc (Suc 0)" by simp_all
  have a: "confidence_of (snd (run_calls example_agents ?ps)) 1 = PFloat (5764607523034236 / 2 ^ 53)"
    using conjunct1 [OF t1] c1 ip fp unfolding l process_penalty_2 by blast
  have a': "\<bar>(process_penalty ^^ 2) 1 - 0.8 ^ 2\<bar> \<le> 5 / 2 ^ 53"
    using conjunct1 [OF conjunct2 [OF t1]] .
  have b: "confidence_of (snd (run_calls example_agents ?cs)) 0 = PFloat (7295831396340204 / 2 ^ 53)"
    using conjunct1 [OF conjunct2 [OF conjunct2 [OF t0]]] c1 ic fc
    unfolding l collaborate_penalty_2 by blast
  have b': "\<bar>(collaborate_penalty ^^ 2) 1 - 0.9 ^ 2\<bar> \<le> 10 / 2 ^ 53"
    using conjunct1 [OF conjunct2 [OF conjunct2 [OF conjunct2 [OF t0]]]] .
  have c: "float_le (confidence_of (snd (run_calls example_agents ?cs)) 1) (confidence_of example_agents 1)"
    using conjunct2 [OF conjunct2 [OF conjunct2 [OF conjunct2 [OF t0]]]] nn by blast
  show ?thesis
    by (intro conjI fp [folded list_all_iff] fc [folded list_all_iff] a a' b b' c)
qed

text \<open>
  The claim has the two powers. Neither holds as stated.

  One failing \<^verbatim>\<open>collaborate\<close> call of the Strategist with itself as the peer: its own
  \<^verbatim>\<open>process\<close> fails for want of a knowledge base and multiplies by 0.8, then the handler
  of \<^verbatim>\<open>collaborate\<close> multiplies by 0.9. The confidence is the float
  \<^verbatim>\<open>0.7200000000000001\<close> and not \<^verbatim>\<open>0.9\<close>.

  Four failing \<^verbatim>\<open>process\<close> calls of the Strategist: the confidence is the float
  \<^verbatim>\<open>0.40960000000000013\<close>. It is not the number \<open>0.8 ^ 4\<close>, not the float nearest to that
  number, \<^verbatim>\<open>0.4096\<close>, and not the float nearest to the fourth power of the float \<^verbatim>\<open>0.8\<close>,
  \<^verbatim>\<open>0.4096000000000001\<close>, which is what \<^verbatim>\<open>0.8 ** 4\<close> evaluates to. After two failing calls
  it is \<^verbatim>\<open>0.6400000000000001\<close> and not the float \<^verbatim>\<open>0.64\<close>.
\<close>

theorem confidence_decay_counterexample:
  "confidence_of example_agents 1 = PFloat 1
   \<and> fst (run_calls example_agents [(source_env, Collaborate 1 1 (PDict []))]) =
       [Inl (PyExn Exception
         ''Strategic collaboration failed: Strategic analysis failed: Knowledge base not initialized''
         (Some (PyExn Exception ''Strategic analysis failed: Knowledge base not initialized''
            (Some (PyExn ValueError ''Knowledge base not initialized'' None)))))]
   \<and> confidence_of (snd (run_calls example_agents [(source_env, Collaborate 1 1 (PDict []))])) 1 =
       PFloat (6485183463413515 / 2 ^ 53)
   \<and> PFloat (6485183463413515 / 2 ^ 53) \<noteq> PFloat (float_literal 0.9)
   \<and> PFloat (6485183463413515 / 2 ^ 53) \<noteq> PFloat (0.9 ^ 1)
   \<and> list_all isl (fst (run_calls example_agents
        [(source_env, Process 1 (PDict [])), (source_env, Process 1 (PDict [])),
         (source_env, Process 1 (PDict [])), (source_env, Process 1 (PDict []))]))
   \<and> confidence_of (snd (run_calls example_agents
        [(source_env, Process 1 (PDict [])), (source_env, Process 1 (PDict [])),
         (source_env, Process 1 (PDict [])), (source_env, Process 1 (PDict []))])) 1 =
       PFloat (7378697629483823 / 2 ^ 54)
   \<and> PFloat (7378697629483823 / 2 ^ 54) \<noteq> PFloat (0.8 ^ 4)
   \<and> PFloat (7378697629483823 / 2 ^ 54) \<noteq> PFloat (float_literal (0.8 ^ 4))
   \<and> PFloat (7378697629483823 / 2 ^ 54) \<noteq> PFloat (round_double (float_literal 0.8 ^ 4))
   \<and> confidence_of (snd (run_calls example_agents
        [(source_env, Process 1 (PDict [])), (source_env, Process 1 (PDict []))])) 1 =
       PFloat (5764607523034236 / 2 ^ 53)
   \<and> PFloat (5764607523034236 / 2 ^ 53) \<noteq> PFloat (float_literal 0.64)"
proof -
  let ?p2 = "[(source_env, Process 1 (PDict [])), (source_env, Process 1 (PDict []))]"
  let ?p4 = "[(source_env, Process 1 (PDict [])), (source_env, Process 1 (PDict [])),
         (source_env, Process 1 (PDict [])), (source_env, Process 1 (PDict []))]"
  have r: "run_calls example_agents [(source_env, Collaborate 1 1 (PDict []))] =
      ([fst (collaborate source_env example_agents 1 1 (PDict []))],
       snd (collaborate source_env example_agents 1 1 (PDict [])))"
    by (simp add: split_beta)
  have c1: "confidence_of example_agents 1 = PFloat 1" by (simp add: example_agents_simps)
  have s1: "fst (run_calls example_agents [(source_env, Collaborate 1 1 (PDict []))]) =
       [Inl (PyExn Exception
         ''Strategic collaboration failed: Strategic analysis failed: Knowledge base not initialized''
         (Some (PyExn Exception ''Strategic analysis failed: Knowledge base not initialized''
            (Some (PyExn ValueError ''Knowledge base not initialized'' None)))))]"
    unfolding r fst_conv strategist_self_collaboration by (rule refl)
  have s2: "confidence_of (snd (run_calls example_agents [(source_env, Collaborate 1 1 (PDict []))])) 1 =
       PFloat (6485183463413515 / 2 ^ 53)"
    unfolding r snd_conv strategist_self_collaboration by (rule refl)
  have s3: "PFloat (6485183463413515 / 2 ^ 53) \<noteq> PFloat (float_literal 0.9)"
    unfolding float_literal_0_9 by simp
  have s4: "PFloat (6485183463413515 / 2 ^ 53) \<noteq> PFloat (0.9 ^ 1)" by simp
  have k: "kind (example_agents 1) = Strategist" "knowledge_base (example_agents 1) = None"
    by (simp_all add: example_agents_simps)
  have f4: "\<forall>r \<in> set (fst (run_calls example_agents ?p4)). isl r"
    by (rule run_calls_strategist_fail [OF k example_agents_doubles]) simp
  have f2: "\<forall>r \<in> set (fst (run_calls example_agents ?p2)). isl r"
    by (rule run_calls_strategist_fail [OF k example_agents_doubles]) simp
  have i4: "\<forall>(E, c) \<in> set ?p4. is_process_of 1 c" by (simp add: is_process_of_def)
  have i2: "\<forall>(E, c) \<in> set ?p2. is_process_of 1 c" by (simp add: is_process_of_def)
  have l: "length ?p4 = Suc (Suc (Suc (Suc 0)))" "length ?p2 = Suc (Suc 0)" by simp_all
  have p4: "confidence_of (snd (run_calls example_agents ?p4)) 1 = PFloat (7378697629483823 / 2 ^ 54)"
    using run_calls_process [OF c1 i4 f4] unfolding l process_penalty_4 .
  have p2: "confidence_of (snd (run_calls example_agents ?p2)) 1 = PFloat (5764607523034236 / 2 ^ 53)"
    using run_calls_process [OF c1 i2 f2] unfolding l process_penalty_2 .
  have q1: "PFloat (7378697629483823 / 2 ^ 54) \<noteq> PFloat (0.8 ^ 4)"
    by (simp add: power_divide)
  have "float_literal (0.8 ^ 4) = 7378697629483821 / 2 ^ 54"
    unfolding float_literal_def
    by (subst round_double_eval [where e = "- 2"])
       (simp_all add: round_half_even_def Let_def power_int_minus power_divide)
  then have q2: "PFloat (7378697629483823 / 2 ^ 54) \<noteq> PFloat (float_literal (0.8 ^ 4))"
    by simp
  have "round_double (float_literal 0.8 ^ 4) = 7378697629483822 / 2 ^ 54"
    unfolding float_literal_0_8
    by (subst round_double_eval [where e = "- 2"])
       (simp_all add: round_half_even_def Let_def power_int_minus power_divide)
  then have q3: "PFloat (7378697629483823 / 2 ^ 54) \<noteq> PFloat (round_double (float_literal 0.8 ^ 4))"
    by simp
  have "float_literal 0.64 = 5764607523034235 / 2 ^ 53"
    unfolding float_literal_def
    by (subst round_double_eval [where e = "- 1"])
       (simp_all add: round_half_even_def Let_def power_int_minus)
  then have q4: "PFloat (5764607523034236 / 2 ^ 53) \<noteq> PFloat (float_literal 0.64)"
    by simp
  show ?thesis
    by (intro conjI c1 s1 s2 s3 s4 f4 [folded list_all_iff] p4 q1 q2 q3 p2 q4)
qed

subsection \<open>What a failing call raises\<close>

lemma process_is_float:
  "is_float (confidence_of (snd (process E h a inp)) b) = is_float (confidence_of h b)"
proof (cases "fst (process E h a inp)")
  case (Inr r)
  then show ?thesis using process_Inr [OF Inr, of b] by simp
next
  case (Inl err)
  show ?thesis
  proof (cases "b = a")
    case False
    then show ?thesis by (simp add: confidence_of_def process_frame)
  next
    case True
    show ?thesis
    proof (cases "confidence_of h a")
      case (PFloat c)
      then show ?thesis using process_Inl(2) [OF Inl PFloat] True by simp
    qed (use process_Inl_not_float(2) [OF Inl, of a] True in simp_all)
  qed
qed

lemma collaborate_eq_fst:
  "collaborate E h x y ctx =
     (case fst (process E (task_set h x (PStr (collaborate_task (kind (h x)) @
                                AgentPersonality.name (personality (h y))))) y ctx) of
        Inl e \<Rightarrow> except_handler (float_literal 0.9) (collaborate_failed (kind (h x))) e x
          (snd (process E (task_set h x (PStr (collaborate_task (kind (h x)) @
                                AgentPersonality.name (personality (h y))))) y ctx))
      | Inr other \<Rightarrow>
          (case collaborate_try E
                  (snd (process E (task_set h x (PStr (collaborate_task (kind (h x)) @
                                AgentPersonality.name (personality (h y))))) y ctx) x)
                  (snd (process E (task_set h x (PStr (collaborate_task (kind (h x)) @
                                AgentPersonality.name (personality (h y))))) y ctx) y)
                  ctx other of
             Inl e \<Rightarrow> except_handler (float_literal 0.9) (collaborate_failed (kind (h x))) e x
               (snd (process E (task_set h x (PStr (collaborate_task (kind (h x)) @
                                AgentPersonality.name (personality (h y))))) y ctx))
           | Inr payload \<Rightarrow> (Inr payload,
               snd (process E (task_set h x (PStr (collaborate_task (kind (h x)) @
                                AgentPersonality.name (personality (h y))))) y ctx))))"
  by (simp add: collaborate_eq split_beta)

text \<open>
  A failing \<^verbatim>\<open>collaborate\<close> has left through its handler, and the exception \<open>e\<close> that
  the handler caught is the one that the peer's \<^verbatim>\<open>process\<close> raised or, when that
  returned, the one that the rest of the \<^verbatim>\<open>try\<close> block raised.
\<close>

lemma collaborate_Inl_cause:
  assumes "fst (collaborate E h x y ctx) = Inl err"
  shows "\<exists>e. collaborate E h x y ctx =
               except_handler (float_literal 0.9) (collaborate_failed (kind (h x))) e x
                 (snd (process E (task_set h x (PStr (collaborate_task (kind (h x)) @
                     AgentPersonality.name (personality (h y))))) y ctx))
            \<and> (fst (process E (task_set h x (PStr (collaborate_task (kind (h x)) @
                     AgentPersonality.name (personality (h y))))) y ctx) = Inl e
               \<or> (\<exists>other. fst (process E (task_set h x (PStr (collaborate_task (kind (h x)) @
                     AgentPersonality.name (personality (h y))))) y ctx) = Inr other
                    \<and> collaborate_try E
                        (snd (process E (task_set h x (PStr (collaborate_task (kind (h x)) @
                           AgentPersonality.name (personality (h y))))) y ctx) x)
                        (snd (process E (task_set h x (PStr (collaborate_task (kind (h x)) @
                           AgentPersonality.name (personality (h y))))) y ctx) y)
                        ctx other = Inl e))"
proof -
  let ?h1 = "task_set h x (PStr (collaborate_task (kind (h x)) @
                     AgentPersonality.name (personality (h y))))"
  let ?h2 = "snd (process E ?h1 y ctx)"
  show "\<exists>e. collaborate E h x y ctx =
               except_handler (float_literal 0.9) (collaborate_failed (kind (h x))) e x ?h2
          \<and> (fst (process E ?h1 y ctx) = Inl e
             \<or> (\<exists>other. fst (process E ?h1 y ctx) = Inr other
                  \<and> collaborate_try E (?h2 x) (?h2 y) ctx other = Inl e))"
  proof (cases "fst (process E ?h1 y ctx)")
    case (Inl e)
    then show ?thesis by (simp add: collaborate_eq_fst)
  next
    case (Inr other)
    show ?thesis
    proof (cases "collaborate_try E (?h2 x) (?h2 y) ctx other")
      case (Inl e)
      then have "collaborate E h x y ctx =
          except_handler (float_literal 0.9) (collaborate_failed (kind (h x))) e x ?h2"
        using Inr by (simp add: collaborate_eq_fst)
      then show ?thesis using Inr Inl by blast
    next
      case Inr2: (Inr payload)
      then have "fst (collaborate E h x y ctx) = Inr payload"
        using Inr by (simp add: collaborate_eq_fst)
      with assms show ?thesis by simp
    qed
  qed
qed

lemma except_handler_raises:
  "\<exists>err. fst (except_handler f l e a h) = Inl err \<and> exn_context err = Some e
      \<and> (is_float (confidence_of h a) \<longrightarrow> err = PyExn Exception (l @ str e) (Some e))
      \<and> (\<not> is_float (confidence_of h a) \<longrightarrow> exn_cls err = TypeError)"
proof (cases "is_float (confidence_of h a)")
  case True
  then obtain c where "confidence_of h a = PFloat c" by (cases "confidence_of h a") simp_all
  then show ?thesis by (simp add: except_handler_float)
next
  case False
  then show ?thesis using except_handler_not_float [OF False, of f l e] by auto
qed

text \<open>
  C8, as the code has it. When \<^verbatim>\<open>process\<close> or \<^verbatim>\<open>collaborate\<close> fails, the exception that
  reaches the caller has the causal exception as its \<^verbatim>\<open>__context__\<close>: for \<^verbatim>\<open>process\<close> what
  the \<^verbatim>\<open>try\<close> block raised, for \<^verbatim>\<open>collaborate\<close> what the peer's \<^verbatim>\<open>process\<close> raised or, when
  that returned, what the rest of the \<^verbatim>\<open>try\<close> block raised. When the agent's confidence
  is a float, the exception is of the class \<^verbatim>\<open>Exception\<close> and its message is the fixed
  prefix of the agent's class followed by \<^verbatim>\<open>str\<close> of the causal exception. When the
  confidence is one of the other values of \<open>pyval\<close> (\<open>None\<close>, a string, a list or a
  dict), it is the TypeError of \<^verbatim>\<open>*=\<close> in the handler. It has no field for the stage: a
  phase shows only as text inside the message, where the phase has a wrapper of its own.
\<close>

theorem failure_is_plain_exception:
  "(fst (process E h a inp) = Inl err \<longrightarrow>
      (\<exists>e. process_try E (task_set h a (PStr (process_task (kind (h a)))) a) inp = Inl e
          \<and> exn_context err = Some e
          \<and> (is_float (confidence_of h a) \<longrightarrow>
               err = PyExn Exception (process_failed (kind (h a)) @ str e) (Some e))
          \<and> (\<not> is_float (confidence_of h a) \<longrightarrow> exn_cls err = TypeError)))
   \<and> (fst (collaborate E h x y ctx) = Inl err \<longrightarrow>
      (\<exists>e. (fst (process E (task_set h x (PStr (collaborate_task (kind (h x)) @
                     AgentPersonality.name (personality (h y))))) y ctx) = Inl e
             \<or> (\<exists>other. fst (process E (task_set h x (PStr (collaborate_task (kind (h x)) @
                     AgentPersonality.name (personality (h y))))) y ctx) = Inr other
                  \<and> collaborate_try E
                      (snd (process E (task_set h x (PStr (collaborate_task (kind (h x)) @
                         AgentPersonality.name (personality (h y))))) y ctx) x)
                      (snd (process E (task_set h x (PStr (collaborate_task (kind (h x)) @
                         AgentPersonality.name (personality (h y))))) y ctx) y)
                      ctx other = Inl e))
          \<and> exn_context err = Some e
          \<and> (is_float (confidence_of h x) \<longrightarrow>
               err = PyExn Exception (collaborate_failed (kind (h x)) @ str e) (Some e))
          \<and> (\<not> is_float (confidence_of h x) \<longrightarrow> exn_cls err = TypeError)))"
proof (intro conjI impI)
  let ?h1 = "task_set h a (PStr (process_task (kind (h a))))"
  assume f: "fst (process E h a inp) = Inl err"
  then obtain e where e: "process_try E (?h1 a) inp = Inl e"
    and p: "process E h a inp =
      except_handler (float_literal 0.8) (process_failed (kind (h a))) e a ?h1"
    using process_Inl_cause by blast
  have c: "confidence_of ?h1 a = confidence_of h a" by (simp add: task_set_simps)
  show "\<exists>e. process_try E (?h1 a) inp = Inl e
          \<and> exn_context err = Some e
          \<and> (is_float (confidence_of h a) \<longrightarrow>
               err = PyExn Exception (process_failed (kind (h a)) @ str e) (Some e))
          \<and> (\<not> is_float (confidence_of h a) \<longrightarrow> exn_cls err = TypeError)"
    using e f except_handler_raises [of "float_literal 0.8" "process_failed (kind (h a))" e a ?h1]
    unfolding p c by auto
next
  let ?h1 = "task_set h x (PStr (collaborate_task (kind (h x)) @
                     AgentPersonality.name (personality (h y))))"
  let ?h2 = "snd (process E ?h1 y ctx)"
  assume f: "fst (collaborate E h x y ctx) = Inl err"
  then obtain e where p: "collaborate E h x y ctx =
               except_handler (float_literal 0.9) (collaborate_failed (kind (h x))) e x ?h2"
    and e: "fst (process E ?h1 y ctx) = Inl e
             \<or> (\<exists>other. fst (process E ?h1 y ctx) = Inr other
                  \<and> collaborate_try E (?h2 x) (?h2 y) ctx other = Inl e)"
    using collaborate_Inl_cause by blast
  have c: "is_float (confidence_of ?h2 x) = is_float (confidence_of h x)"
    by (simp add: process_is_float task_set_simps)
  obtain err' where r: "fst (except_handler (float_literal 0.9) (collaborate_failed (kind (h x))) e x ?h2)
        = Inl err'" "exn_context err' = Some e"
      "is_float (confidence_of h x) \<longrightarrow>
         err' = PyExn Exception (collaborate_failed (kind (h x)) @ str e) (Some e)"
      "\<not> is_float (confidence_of h x) \<longrightarrow> exn_cls err' = TypeError"
    using except_handler_raises
      [of "float_literal 0.9" "collaborate_failed (kind (h x))" e x ?h2]
    unfolding c by blast
  have "err' = err" using f r(1) unfolding p by simp
  with r e show "\<exists>e. (fst (process E ?h1 y ctx) = Inl e
             \<or> (\<exists>other. fst (process E ?h1 y ctx) = Inr other
                  \<and> collaborate_try E (?h2 x) (?h2 y) ctx other = Inl e))
          \<and> exn_context err = Some e
          \<and> (is_float (confidence_of h x) \<longrightarrow>
               err = PyExn Exception (collaborate_failed (kind (h x)) @ str e) (Some e))
          \<and> (\<not> is_float (confidence_of h x) \<longrightarrow> exn_cls err = TypeError)"
    by blast
qed

subsection \<open>What collaborate does\<close>

lemma collaborate_Inr:
  assumes "fst (collaborate E h x y ctx) = Inr payload"
  shows "\<exists>other. fst (process E (task_set h x (PStr (collaborate_task (kind (h x)) @
                     AgentPersonality.name (personality (h y))))) y ctx) = Inr other
           \<and> collaborate_try E
                (snd (process E (task_set h x (PStr (collaborate_task (kind (h x)) @
                     AgentPersonality.name (personality (h y))))) y ctx) x)
                (snd (process E (task_set h x (PStr (collaborate_task (kind (h x)) @
                     AgentPersonality.name (personality (h y))))) y ctx) y)
                ctx other = Inr payload"
proof -
  let ?h1 = "task_set h x (PStr (collaborate_task (kind (h x)) @
                     AgentPersonality.name (personality (h y))))"
  let ?h2 = "snd (process E ?h1 y ctx)"
  have el: "isl (fst (except_handler f l e a g))" for f l e a g
    by (simp add: except_handler_def split: sum.splits pyexn.splits)
  show ?thesis
  proof (cases "fst (process E ?h1 y ctx)")
    case (Inl e)
    then have "collaborate E h x y ctx =
        except_handler (float_literal 0.9) (collaborate_failed (kind (h x))) e x ?h2"
      by (simp add: collaborate_eq_fst)
    then have "isl (fst (collaborate E h x y ctx))" using el by simp
    with assms show ?thesis by simp
  next
    case (Inr other)
    show ?thesis
    proof (cases "collaborate_try E (?h2 x) (?h2 y) ctx other")
      case (Inl e)
      then have "collaborate E h x y ctx =
          except_handler (float_literal 0.9) (collaborate_failed (kind (h x))) e x ?h2"
        using Inr by (simp add: collaborate_eq_fst)
      then have "isl (fst (collaborate E h x y ctx))" using el by simp
      with assms show ?thesis by simp
    next
      case Inr2: (Inr p)
      then have "fst (collaborate E h x y ctx) = Inr p"
        using Inr by (simp add: collaborate_eq_fst)
      with assms have "p = payload" by simp
      with Inr Inr2 show ?thesis by simp
    qed
  qed
qed

lemma collaborate_try_metadata:
  assumes "collaborate_try E self other_agent ctx other = Inr payload"
    and "kind self \<noteq> Strategist"
  shows "\<exists>md. py_get payload ''collaboration_metadata'' = Some md
            \<and> py_get md ''partner'' = Some (PStr (AgentPersonality.name (personality other_agent)))
            \<and> py_get md ''timestamp'' = Some (PStr (now E))"
  using assms
  by (cases "kind self")
     (auto simp: collaborate_try_def bind_res_Inr collaboration_metadata_def)

lemma collaborate_try_strategist:
  assumes "collaborate_try E self other_agent ctx other = Inr payload"
    and "kind self = Strategist"
  shows "py_get payload ''collaboration_partner'' =
           Some (PStr (AgentPersonality.name (personality other_agent)))"
    and "py_get payload ''collaboration_metadata'' = None"
    and "py_get payload ''timestamp'' = None"
  using assms by (auto simp: collaborate_try_def bind_res_Inr)

lemma collaborate_payload:
  assumes "fst (collaborate E h x y ctx) = Inr payload"
  shows "kind (h x) \<noteq> Strategist \<Longrightarrow>
           \<exists>md. py_get payload ''collaboration_metadata'' = Some md
             \<and> py_get md ''partner'' = Some (PStr (AgentPersonality.name (personality (h y))))
             \<and> py_get md ''timestamp'' = Some (PStr (now E))"
    and "kind (h x) = Strategist \<Longrightarrow>
           py_get payload ''collaboration_partner'' =
             Some (PStr (AgentPersonality.name (personality (h y))))
           \<and> py_get payload ''collaboration_metadata'' = None
           \<and> py_get payload ''timestamp'' = None"
proof -
  let ?h1 = "task_set h x (PStr (collaborate_task (kind (h x)) @
                     AgentPersonality.name (personality (h y))))"
  let ?h2 = "snd (process E ?h1 y ctx)"
  obtain other where t: "collaborate_try E (?h2 x) (?h2 y) ctx other = Inr payload"
    using collaborate_Inr [OF assms] by blast
  have k: "kind (?h2 x) = kind (h x)" "personality (?h2 y) = personality (h y)"
    by (simp_all add: process_kind task_set_simps)
  show "kind (h x) \<noteq> Strategist \<Longrightarrow>
           \<exists>md. py_get payload ''collaboration_metadata'' = Some md
             \<and> py_get md ''partner'' = Some (PStr (AgentPersonality.name (personality (h y))))
             \<and> py_get md ''timestamp'' = Some (PStr (now E))"
    using collaborate_try_metadata [OF t] k by simp
  show "kind (h x) = Strategist \<Longrightarrow>
           py_get payload ''collaboration_partner'' =
             Some (PStr (AgentPersonality.name (personality (h y))))
           \<and> py_get payload ''collaboration_metadata'' = None
           \<and> py_get payload ''timestamp'' = None"
    using collaborate_try_strategist [OF t] k by simp
qed

lemma except_handler_current_task:
  "current_task (BaseAgent.state (snd (except_handler f l e a h) b)) =
   current_task (BaseAgent.state (h b))"
  by (simp add: except_handler_def split: sum.splits pyexn.splits)

lemma collaborate_label_kept:
  assumes "x \<noteq> y"
  shows "current_task (BaseAgent.state (snd (collaborate E h x y ctx) x)) =
           PStr (collaborate_task (kind (h x)) @ AgentPersonality.name (personality (h y)))"
proof -
  let ?h1 = "task_set h x (PStr (collaborate_task (kind (h x)) @
                     AgentPersonality.name (personality (h y))))"
  have "snd (process E ?h1 y ctx) x = ?h1 x" using assms by (simp add: process_frame)
  then have "current_task (BaseAgent.state (snd (process E ?h1 y ctx) x)) =
      PStr (collaborate_task (kind (h x)) @ AgentPersonality.name (personality (h y)))"
    by (simp add: task_set_simps)
  then show ?thesis
    using collaborate_snd_cases [of E h x y ctx]
    by (auto simp: except_handler_current_task)
qed

lemma process_try_fails:
  assumes "process_try E (task_set h a (PStr (process_task (kind (h a)))) a) inp = Inl e"
    and "confidence_of h a = PFloat c"
  shows "fst (process E h a inp) =
           Inl (PyExn Exception (process_failed (kind (h a)) @ str e) (Some e))"
proof -
  have c1: "confidence_of (task_set h a (PStr (process_task (kind (h a))))) a = PFloat c"
    using assms(2) by (simp add: task_set_simps)
  show ?thesis
    unfolding process_eq assms(1) sum.case except_handler_float [OF c1] by simp
qed

lemma analyst_process_source:
  assumes "kind (h a) = Analyst"
  shows "\<exists>r. fst (process source_env h a inp) = Inr r"
proof -
  let ?h1 = "task_set h a (PStr (process_task (kind (h a))))"
  have "kind (?h1 a) = Analyst" using assms by (simp add: task_set_simps)
  then obtain r where "analyst_process_try source_env (?h1 a) inp =
      Inr (r, (?h1 a)\<lparr>analysis_history := analysis_history (?h1 a) @ [r], current_analysis := r\<rparr>)"
    using analyst_process_try_source by blast
  then have "process_try source_env (?h1 a) inp =
      Inr (r, (?h1 a)\<lparr>analysis_history := analysis_history (?h1 a) @ [r], current_analysis := r\<rparr>)"
    using \<open>kind (?h1 a) = Analyst\<close> by (simp add: process_try_def)
  then have "fst (process source_env h a inp) = Inr r"
    unfolding process_eq by simp
  then show ?thesis by blast
qed

subsection \<open>The payload of collaborate\<close>

lemma strategist_collaborate_try_source:
  assumes "kind self = Strategist"
  shows "collaborate_try source_env self other_agent ctx other =
     Inr (PDict [(''integrated_analysis'', PDict [(''integration'', PStr ''Implementation needed'')]),
                 (''collaboration_partner'', PStr (AgentPersonality.name (personality other_agent))),
                 (''updated_plans'', PDict (strategic_plans self))])"
  by (simp add: collaborate_try_def assms source_env_simps source_methods_def strategist_methods_def
      bind_res_def implementation_needed_def)

text \<open>
  C7. \<^verbatim>\<open>collaborate\<close> sets the caller's task label to a prefix followed by the peer's name
  (\<open>label_set_eq\<close>), runs the peer's \<^verbatim>\<open>process\<close> on the context in that heap
  (\<open>collaborate_eq\<close>), and the label is still there afterwards when the peer is another
  agent (\<open>collaborate_label_kept\<close>). On success the payload of six of the seven classes
  has \<open>collaboration_metadata\<close> with the peer's name and a timestamp
  (\<open>collaborate_payload\<close>). The Strategist's has not: when the Strategist of the example
  collaborates with the Analyst and succeeds, its payload names the partner and holds no
  timestamp.
\<close>

theorem strategist_collaborate_payload:
  "fst (collaborate source_env example_agents 1 0 (PDict [])) =
     Inr (PDict [(''integrated_analysis'', PDict [(''integration'', PStr ''Implementation needed'')]),
                 (''collaboration_partner'', PStr ''Analyst''),
                 (''updated_plans'', PDict [])])"
proof -
  let ?h1 = "task_set example_agents 1 (PStr (collaborate_task (kind (example_agents 1)) @
                     AgentPersonality.name (personality (example_agents 0))))"
  let ?h2 = "snd (process source_env ?h1 0 (PDict []))"
  have "kind (?h1 0) = Analyst" by (simp add: task_set_simps example_agents_simps)
  then obtain r where r: "fst (process source_env ?h1 0 (PDict [])) = Inr r"
    using analyst_process_source by blast
  have f: "?h2 1 = ?h1 1" by (simp add: process_frame)
  have k: "kind (?h2 1) = Strategist" "strategic_plans (?h2 1) = []"
    "AgentPersonality.name (personality (?h2 0)) = ''Analyst''"
    unfolding f
    by (simp_all add: process_kind task_set_simps task_set_def example_agents_simps
        example_agents_name)
  note t = strategist_collaborate_try_source [OF k(1), of "?h2 0" "PDict []" r, unfolded k(2,3)]
  show ?thesis
    unfolding collaborate_eq_fst r sum.case t by simp
qed

lemma analyst_collaborates_with_strategist:
  "fst (collaborate source_env example_agents 0 1 (PDict [])) =
     Inl (PyExn Exception
       ''Collaborative analysis failed: Strategic analysis failed: Knowledge base not initialized''
       (Some (PyExn Exception ''Strategic analysis failed: Knowledge base not initialized''
          (Some (PyExn ValueError ''Knowledge base not initialized'' None)))))"
proof -
  let ?h1 = "task_set example_agents 0 (PStr (collaborate_task (kind (example_agents 0)) @
             AgentPersonality.name (personality (example_agents 1))))"
  have k: "kind (?h1 1) = Strategist" "knowledge_base (?h1 1) = None" "confidence_of ?h1 1 = PFloat 1"
    by (simp_all add: task_set_simps task_set_knowledge_base example_agents_simps)
  note p = strategist_process_no_knowledge_base [OF k, of source_env "PDict []"]
  have "snd (process source_env ?h1 1 (PDict [])) 0 = ?h1 0" by (simp add: process_frame)
  then have p2: "confidence_of (snd (process source_env ?h1 1 (PDict []))) 0 = PFloat 1"
    by (simp add: confidence_of_def task_set_def example_agents_def BaseAgent_init_def
        AgentState_init_def)
  show ?thesis
    unfolding collaborate_peer_fails(1) [OF p(1) p2] by (simp add: example_agents_simps)
qed

lemma strategist_process_try_no_knowledge_base:
  assumes "kind self = Strategist" and "knowledge_base self = None"
  shows "process_try E self inp = Inl (PyExn ValueError ''Knowledge base not initialized'' None)"
  by (simp add: process_try_def assms strategist_process_try_def strategist_analyze_context_def
      access_knowledge_base_def bind_res_def)

lemma example_agents_unsure_simps:
  "kind (example_agents_unsure a) = (if a = 1 then Strategist else Analyst)"
  "knowledge_base (example_agents_unsure a) = None"
  "confidence_of example_agents_unsure 1 = PNone"
  by (simp_all add: example_agents_unsure_def example_agents_simps confidence_of_def
      field_names_def setattr_field_def)

lemma strategist_process_unsure:
  "fst (process source_env example_agents_unsure 1 (PDict [])) =
     Inl (PyExn TypeError
            (''unsupported operand type(s) for *=: '' @ quoted ''NoneType'' @ '' and '' @ quoted ''float'')
            (Some (PyExn ValueError ''Knowledge base not initialized'' None)))"
proof -
  let ?h1 = "task_set example_agents_unsure 1 (PStr (process_task (kind (example_agents_unsure 1))))"
  have k: "kind (?h1 1) = Strategist" "knowledge_base (?h1 1) = None"
    by (simp_all add: task_set_simps task_set_knowledge_base example_agents_unsure_simps)
  have c: "confidence (BaseAgent.state (?h1 1)) = PNone"
    using example_agents_unsure_simps(3) by (simp add: task_set_simps flip: confidence_of_def)
  show ?thesis
    unfolding process_eq strategist_process_try_no_knowledge_base [OF k] sum.case
      except_handler_def c py_imul.simps unsupported_imul_def
    by simp
qed

text \<open>
  The Strategist of the example fails in \<^verbatim>\<open>process\<close>, and the Analyst fails in
  \<^verbatim>\<open>collaborate\<close> with it: both raise an \<^verbatim>\<open>Exception\<close> with the cause as its context,
  and the cause of the second is what the Strategist's \<^verbatim>\<open>process\<close> raised. With a
  confidence of \<open>None\<close> the Strategist's \<^verbatim>\<open>process\<close> raises a TypeError, with the same
  cause as its context.
\<close>

theorem failure_is_plain_exception_witness:
  "fst (process source_env example_agents 1 (PDict [])) =
       Inl (PyExn Exception ''Strategic analysis failed: Knowledge base not initialized''
              (Some (PyExn ValueError ''Knowledge base not initialized'' None)))
   \<and> process_try source_env
        (task_set example_agents 1 (PStr (process_task (kind (example_agents 1)))) 1) (PDict []) =
       Inl (PyExn ValueError ''Knowledge base not initialized'' None)
   \<and> fst (collaborate source_env example_agents 0 1 (PDict [])) =
       Inl (PyExn Exception
         ''Collaborative analysis failed: Strategic analysis failed: Knowledge base not initialized''
         (Some (PyExn Exception ''Strategic analysis failed: Knowledge base not initialized''
            (Some (PyExn ValueError ''Knowledge base not initialized'' None)))))
   \<and> fst (process source_env
           (task_set example_agents 0 (PStr (collaborate_task (kind (example_agents 0)) @
              AgentPersonality.name (personality (example_agents 1))))) 1 (PDict [])) =
       Inl (PyExn Exception ''Strategic analysis failed: Knowledge base not initialized''
              (Some (PyExn ValueError ''Knowledge base not initialized'' None)))
   \<and> confidence_of example_agents_unsure 1 = PNone
   \<and> (\<exists>err. fst (process source_env example_agents_unsure 1 (PDict [])) = Inl err
          \<and> exn_cls err = TypeError
          \<and> exn_context err = Some (PyExn ValueError ''Knowledge base not initialized'' None))
   \<and> process_try source_env
        (task_set example_agents_unsure 1 (PStr (process_task (kind (example_agents_unsure 1)))) 1)
        (PDict []) =
       Inl (PyExn ValueError ''Knowledge base not initialized'' None)"
proof -
  let ?cause = "PyExn ValueError ''Knowledge base not initialized'' None"
  let ?perr = "PyExn Exception ''Strategic analysis failed: Knowledge base not initialized'' (Some ?cause)"
  let ?cerr = "PyExn Exception
         ''Collaborative analysis failed: Strategic analysis failed: Knowledge base not initialized''
         (Some ?perr)"
  let ?terr = "PyExn TypeError
            (''unsupported operand type(s) for *=: '' @ quoted ''NoneType'' @ '' and '' @ quoted ''float'')
            (Some ?cause)"
  let ?h1 = "task_set example_agents 0 (PStr (collaborate_task (kind (example_agents 0)) @
              AgentPersonality.name (personality (example_agents 1))))"
  have c: "confidence_of example_agents 1 = PFloat 1" "confidence_of example_agents 0 = PFloat 1"
    by (simp_all add: example_agents_simps)
  have k: "kind (example_agents 1) = Strategist" "knowledge_base (example_agents 1) = None"
    by (simp_all add: example_agents_simps)
  note p = strategist_process_no_knowledge_base(1) [OF k c(1), of source_env "PDict []"]
  note q = analyst_collaborates_with_strategist
  note u = strategist_process_unsure
  note n = example_agents_unsure_simps(3)
  \<comment> \<open>\<^verbatim>\<open>process\<close> with a float\<close>
  from conjunct1 [OF failure_is_plain_exception
      [of source_env example_agents 1 "PDict []" ?perr]] p
  obtain e where e: "process_try source_env
        (task_set example_agents 1 (PStr (process_task (kind (example_agents 1)))) 1) (PDict []) = Inl e"
    "exn_context ?perr = Some e"
    by blast
  from e(2) have "e = ?cause" by simp
  with e(1) have t: "process_try source_env
        (task_set example_agents 1 (PStr (process_task (kind (example_agents 1)))) 1) (PDict []) =
       Inl ?cause" by simp
  \<comment> \<open>\<^verbatim>\<open>collaborate\<close>\<close>
  from conjunct2 [OF failure_is_plain_exception
      [where E = source_env and h = example_agents and x = 0 and y = 1 and ctx = "PDict []"
         and err = ?cerr]] q
  obtain e' where e': "fst (process source_env ?h1 1 (PDict [])) = Inl e'
      \<or> (\<exists>other. fst (process source_env ?h1 1 (PDict [])) = Inr other
            \<and> collaborate_try source_env (snd (process source_env ?h1 1 (PDict [])) 0)
                 (snd (process source_env ?h1 1 (PDict [])) 1) (PDict []) other = Inl e')"
    "exn_context ?cerr = Some e'"
    by blast
  have k1: "kind (?h1 1) = Strategist" "knowledge_base (?h1 1) = None" "confidence_of ?h1 1 = PFloat 1"
    by (simp_all add: task_set_simps task_set_knowledge_base example_agents_simps)
  have "isl (fst (process source_env ?h1 1 (PDict [])))"
    using strategist_process_no_knowledge_base(1) [OF k1, of source_env "PDict []"] by simp
  with e'(1) have "fst (process source_env ?h1 1 (PDict [])) = Inl e'" by auto
  moreover from e'(2) have "e' = ?perr" by simp
  ultimately have r: "fst (process source_env ?h1 1 (PDict [])) = Inl ?perr" by simp
  \<comment> \<open>\<^verbatim>\<open>process\<close> without a float\<close>
  from conjunct1 [OF failure_is_plain_exception
      [of source_env example_agents_unsure 1 "PDict []" ?terr]] u
  obtain e'' where e'': "process_try source_env
        (task_set example_agents_unsure 1 (PStr (process_task (kind (example_agents_unsure 1)))) 1)
        (PDict []) = Inl e''"
    "exn_context ?terr = Some e''"
    "\<not> is_float (confidence_of example_agents_unsure 1) \<longrightarrow> exn_cls ?terr = TypeError"
    by blast
  from e''(2) have "e'' = ?cause" by simp
  with e''(1) have t': "process_try source_env
        (task_set example_agents_unsure 1 (PStr (process_task (kind (example_agents_unsure 1)))) 1)
        (PDict []) = Inl ?cause" by simp
  have v: "\<exists>err. fst (process source_env example_agents_unsure 1 (PDict [])) = Inl err
          \<and> exn_cls err = TypeError \<and> exn_context err = Some ?cause"
    using u e''(3) n by simp
  show ?thesis by (intro conjI p t q r n v t')
qed

subsection \<open>The stage is not part of what is raised\<close>

lemma analyst_validate_fails:
  assumes "kind self = Analyst"
  shows "analyst_prepare_data env_validate_fails self inp =
           Inl (PyExn Exception ''Data preparation failed: bad input'' (Some bad_input))"
    and "process_try env_validate_fails self inp =
           Inl (PyExn Exception ''Data preparation failed: bad input'' (Some bad_input))"
  by (simp_all add: process_try_def assms analyst_process_try_def analyst_prepare_data_def
      env_validate_fails_def bind_res_def reraise_def bad_input_def)

lemma analyst_recommend_fails:
  assumes "kind self = Analyst"
  shows "analyst_prepare_data env_recommend_fails self inp = Inr (PDict [(''data'', inp)])"
    and "process_try env_recommend_fails self inp =
           Inl (PyExn Exception ''Data preparation failed: bad input'' (Some bad_input))"
  by (simp_all add: process_try_def assms analyst_process_try_def analyst_prepare_data_def
      analyst_perform_statistical_analysis_def analyst_identify_patterns_def
      analyst_analyze_trends_def analyst_generate_insights_def
      env_recommend_fails_def source_methods_def analyst_methods_def
      bind_res_def reraise_def Let_def)

text \<open>
  In one environment the data preparation phase of the Analyst raises; in the other that
  phase returns and \<^verbatim>\<open>_create_recommendations\<close> raises later. \<^verbatim>\<open>process\<close> raises the
  same exception in both, with the same message and the same chain of contexts: the
  caller cannot tell from it which phase failed. And after
  \<^verbatim>\<open>update_state({"confidence": None})\<close> the failing \<^verbatim>\<open>process\<close> of the Strategist raises
  the TypeError of the handler's \<^verbatim>\<open>*=\<close>, not an exception made from the cause.
\<close>

theorem failure_counterexample:
  "analyst_prepare_data env_validate_fails (example_agents 0) (PDict []) =
     Inl (PyExn Exception ''Data preparation failed: bad input'' (Some bad_input))
   \<and> analyst_prepare_data env_recommend_fails (example_agents 0) (PDict []) =
     Inr (PDict [(''data'', PDict [])])
   \<and> fst (process env_validate_fails example_agents 0 (PDict [])) =
     Inl (PyExn Exception ''Analysis failed: Data preparation failed: bad input''
            (Some (PyExn Exception ''Data preparation failed: bad input'' (Some bad_input))))
   \<and> fst (process env_recommend_fails example_agents 0 (PDict [])) =
     Inl (PyExn Exception ''Analysis failed: Data preparation failed: bad input''
            (Some (PyExn Exception ''Data preparation failed: bad input'' (Some bad_input))))
   \<and> confidence_of example_agents_unsure 1 = PNone
   \<and> fst (process source_env example_agents_unsure 1 (PDict [])) =
     Inl (PyExn TypeError
            (''unsupported operand type(s) for *=: '' @ quoted ''NoneType'' @ '' and '' @ quoted ''float'')
            (Some (PyExn ValueError ''Knowledge base not initialized'' None)))"
proof -
  have k: "kind (example_agents 0) = Analyst"
    "kind (task_set example_agents 0 (PStr (process_task (kind (example_agents 0)))) 0) = Analyst"
    by (simp_all add: example_agents_simps task_set_simps)
  have c: "confidence_of example_agents 0 = PFloat 1" by (simp add: example_agents_simps)
  have a: "fst (process env_validate_fails example_agents 0 (PDict [])) =
     Inl (PyExn Exception ''Analysis failed: Data preparation failed: bad input''
            (Some (PyExn Exception ''Data preparation failed: bad input'' (Some bad_input))))"
    unfolding process_try_fails [OF analyst_validate_fails(2) [OF k(2)] c] by (simp add: k(1))
  have b: "fst (process env_recommend_fails example_agents 0 (PDict [])) =
     Inl (PyExn Exception ''Analysis failed: Data preparation failed: bad input''
            (Some (PyExn Exception ''Data preparation failed: bad input'' (Some bad_input))))"
    unfolding process_try_fails [OF analyst_recommend_fails(2) [OF k(2)] c] by (simp add: k(1))
  show ?thesis
    by (intro conjI analyst_validate_fails(1) [OF k(1)] analyst_recommend_fails(1) [OF k(1)] a b
        example_agents_unsure_simps(3) strategist_process_unsure)
qed

subsection \<open>update\_state\<close>

lemma getattr_setattr:
  "k \<in> set field_names \<Longrightarrow> getattr_field (setattr_field s k v) k = v"
  "f \<noteq> k \<Longrightarrow> getattr_field (setattr_field s k v) f = getattr_field s f"
  by (auto simp: field_names_def getattr_field_def setattr_field_def)

text \<open>
  When no key of the mapping is a non-field attribute of the state object,
  \<^verbatim>\<open>update_state\<close> raises nothing, every field named by a key holds that key's value, and
  every other field is as it was.
\<close>

lemma update_state_fields:
  assumes "\<forall>k \<in> set (map fst m). k \<in> set field_names \<or> k \<notin> set attrs"
    and "distinct (map fst m)"
  shows "fst (update_state attrs s m) = None
         \<and> (\<forall>f \<in> set field_names.
              getattr_field (snd (update_state attrs s m)) f =
                (case map_of m f of Some v \<Rightarrow> v | None \<Rightarrow> getattr_field s f))"
  using assms
proof (induction m arbitrary: s)
  case Nil
  then show ?case by simp
next
  case (Cons p m)
  obtain k v where p: "p = (k, v)" by (cases p)
  have rest: "\<forall>k \<in> set (map fst m). k \<in> set field_names \<or> k \<notin> set attrs" "distinct (map fst m)"
    using Cons.prems by simp_all
  have nk: "map_of m k = None" using Cons.prems(2) p by (simp add: map_of_eq_None_iff)
  show ?case
  proof (cases "k \<in> set field_names")
    case True
    have u: "update_state attrs s (p # m) = update_state attrs (setattr_field s k v) m"
      using True by (simp add: p)
    show ?thesis
      unfolding u using Cons.IH [OF rest, of "setattr_field s k v"] True nk
      by (auto simp: p getattr_setattr split: option.splits)
  next
    case False
    then have "k \<notin> set attrs" using Cons.prems(1) p by simp
    then have u: "update_state attrs s (p # m) = update_state attrs s m"
      using False by (simp add: p)
    show ?thesis
      unfolding u using Cons.IH [OF rest, of s] False
      by (auto simp: p split: option.splits)
  qed
qed

text \<open>
  C10. A key that names a non-field attribute of the state object is not ignored:
  \<^verbatim>\<open>hasattr\<close> holds for it, \<^verbatim>\<open>setattr\<close> is reached, and pydantic refuses it. For the
  mapping \<^verbatim>\<open>{"confidence": 0.5, "dict": None, "memory": {"k": None}}\<close> on a new state,
  \<^verbatim>\<open>update_state\<close> sets \<open>confidence\<close>, raises the ValueError at \<open>dict\<close>, and never
  reaches \<open>memory\<close>.
\<close>

theorem update_state_method_name:
  "update_state (state_attrs source_env) AgentState_init
     [(''confidence'', PFloat 0.5), (''dict'', PNone), (''memory'', PDict [(''k'', PNone)])] =
   (Some (PyExn ValueError ''\"AgentState\" object has no field \"dict\"'' None),
    AgentState_init\<lparr>confidence := PFloat 0.5\<rparr>)"
  by (simp add: source_env_simps field_names_def setattr_field_def)


end
